theory Spec2Isabelle
  imports Complex_Main
begin

section \<open>Values crossing the boundary\<close>

text \<open>
  Raw tool arguments and the entities the Google APIs return are JSON values. A JavaScript
  object is an association list from property names to values; a property that is absent
  (or \<^verbatim>\<open>undefined\<close>, which \<^verbatim>\<open>JSON.stringify\<close> drops) has no entry, while an explicit
  \<^verbatim>\<open>null\<close> is the value \<open>JNull\<close>. Numbers are exact rationals: the rounding of IEEE
  doubles is not modelled.
\<close>

type_synonym number = rat

datatype json =
    JNull
  | JBool bool
  | JNum number
  | JStr string
  | JArr "json list"
  | JObj "(string \<times> json) list"

type_synonym obj = "(string \<times> json) list"

text \<open>Property access \<^verbatim>\<open>o.k\<close>: \<open>None\<close> is \<^verbatim>\<open>undefined\<close>.\<close>

definition get_prop :: "obj \<Rightarrow> string \<Rightarrow> json option" where
  "get_prop ob k = map_of ob k"

text \<open>The nullish coalescing operator \<^verbatim>\<open>x ?? d\<close>.\<close>

fun nullish :: "json option \<Rightarrow> json \<Rightarrow> json" where
  "nullish None d = d"
| "nullish (Some JNull) d = d"
| "nullish (Some v) d = v"

text \<open>Truthiness of a value that may be \<^verbatim>\<open>undefined\<close>.\<close>

fun truthy_json :: "json option \<Rightarrow> bool" where
  "truthy_json None = False"
| "truthy_json (Some JNull) = False"
| "truthy_json (Some (JBool b)) = b"
| "truthy_json (Some (JNum n)) = (n \<noteq> 0)"
| "truthy_json (Some (JStr s)) = (s \<noteq> [])"
| "truthy_json (Some (JArr _)) = True"
| "truthy_json (Some (JObj _)) = True"

text \<open>\<^verbatim>\<open>Array.prototype.join\<close> on an array of strings.\<close>

fun join :: "string \<Rightarrow> string list \<Rightarrow> string" where
  "join sep [] = []"
| "join sep [x] = x"
| "join sep (x # y # ys) = x @ sep @ join sep (y # ys)"

section \<open>Regular expressions of the server\<close>

text \<open>
  \<^verbatim>\<open>const DATE_ONLY_REGEX = /^\d{4}-\d{2}-\d{2}$/;\<close>
  The pattern is anchored at both ends and has no flags, so \<^verbatim>\<open>\d\<close> is an ASCII digit and
  \<^verbatim>\<open>$\<close> is the end of the input.
\<close>

datatype re_atom = Digit | Lit char

fun re_atom_matches :: "re_atom \<Rightarrow> char \<Rightarrow> bool" where
  "re_atom_matches Digit c = (c \<in> set ''0123456789'')"
| "re_atom_matches (Lit l) c = (c = l)"

fun re_test :: "re_atom list \<Rightarrow> string \<Rightarrow> bool" where
  "re_test [] [] = True"
| "re_test (a # as) (c # cs) = (re_atom_matches a c \<and> re_test as cs)"
| "re_test _ _ = False"

definition DATE_ONLY_REGEX :: "re_atom list" where
  "DATE_ONLY_REGEX =
     [Digit, Digit, Digit, Digit, Lit (CHR ''-''), Digit, Digit, Lit (CHR ''-''), Digit, Digit]"

text \<open>
  \<^verbatim>\<open>const propertyFilterRegex = /^[^=]+=[^=]+$/;\<close>
  a non-empty run without \<^verbatim>\<open>=\<close>, one \<^verbatim>\<open>=\<close>, and a non-empty run without \<^verbatim>\<open>=\<close>.
\<close>

definition propertyFilterRegex_test :: "string \<Rightarrow> bool" where
  "propertyFilterRegex_test s =
     (let k = takeWhile (\<lambda>c. c \<noteq> CHR ''='') s;
          r = dropWhile (\<lambda>c. c \<noteq> CHR ''='') s
      in k \<noteq> [] \<and> (case r of [] \<Rightarrow> False | _ # v \<Rightarrow> v \<noteq> [] \<and> CHR ''='' \<notin> set v))"

section \<open>Validated inputs shared by the event tools\<close>

datatype ResponseStatus = needsAction | declined | tentative | accepted
datatype ReminderMethod = email_method | popup
datatype Transparency = opaque | transparent
datatype Visibility = default_visibility | public_visibility | private_visibility | confidential
datatype SendUpdates = all_updates | externalOnly | none_updates
datatype TaskStatus = task_needsAction | task_completed

text \<open>\<^verbatim>\<open>attendeeSchema\<close>; the request's attendee has the same six properties.\<close>

record Attendee =
  email :: string
  optional :: "bool option"
  displayName :: "string option"
  responseStatus :: "ResponseStatus option"
  comment :: "string option"
  additionalGuests :: "number option"

text \<open>\<^verbatim>\<open>reminderOverrideSchema\<close> and \<^verbatim>\<open>remindersSchema\<close>.\<close>

record ReminderOverrideInput =
  method' :: "ReminderMethod option"
  minutes :: number

record RemindersInput =
  useDefault :: "bool option"
  overrides :: "ReminderOverrideInput list option"

text \<open>\<^verbatim>\<open>extendedPropertiesSchema\<close>: two optional string-to-string records.\<close>

record ExtendedPropertiesInput =
  private' :: "(string \<times> string) list option"
  shared :: "(string \<times> string) list option"

record Attachment =
  fileUrl :: string
  title :: "string option"
  mimeType :: "string option"
  iconLink :: "string option"
  fileId :: "string option"

record Source =
  source_title :: string
  url :: string

text \<open>\<^verbatim>\<open>commonEventFieldsSchema\<close>: every property is optional, \<open>None\<close> is \<^verbatim>\<open>undefined\<close>.\<close>

record CommonEventFields =
  description :: "string option"
  location :: "string option"
  colorId :: "string option"
  recurrence :: "string list option"
  transparency :: "Transparency option"
  visibility :: "Visibility option"
  attendees :: "Attendee list option"
  reminders :: "RemindersInput option"
  conferenceData :: "json option"
  extendedProperties :: "ExtendedPropertiesInput option"
  guestsCanInviteOthers :: "bool option"
  guestsCanModify :: "bool option"
  guestsCanSeeOtherGuests :: "bool option"
  anyoneCanAddSelf :: "bool option"
  attachments :: "Attachment list option"
  source :: "Source option"

section \<open>The request body of the Calendar API\<close>

text \<open>
  The parts of \<^verbatim>\<open>calendar_v3.Schema$Event\<close> the server writes. A field that is \<open>None\<close> is
  absent from the serialised request: a property never assigned and a property assigned
  \<^verbatim>\<open>undefined\<close> serialise alike.
\<close>

record EventDateTime =
  date :: "string option"
  dateTime :: "string option"
  timeZone :: "string option"

record ReminderOverride =
  g_method :: ReminderMethod
  g_minutes :: number

record Reminders =
  g_useDefault :: "bool option"
  g_overrides :: "ReminderOverride list option"

record ExtendedProperties =
  g_private :: "(string \<times> string) list option"
  g_shared :: "(string \<times> string) list option"

record Schema_Event =
  ev_summary :: "string option"
  ev_start :: "EventDateTime option"
  ev_end :: "EventDateTime option"
  ev_id :: "string option"
  ev_description :: "string option"
  ev_location :: "string option"
  ev_colorId :: "string option"
  ev_recurrence :: "string list option"
  ev_transparency :: "Transparency option"
  ev_visibility :: "Visibility option"
  ev_attendees :: "Attendee list option"
  ev_reminders :: "Reminders option"
  ev_conferenceData :: "json option"
  ev_extendedProperties :: "ExtendedProperties option"
  ev_guestsCanInviteOthers :: "bool option"
  ev_guestsCanModify :: "bool option"
  ev_guestsCanSeeOtherGuests :: "bool option"
  ev_anyoneCanAddSelf :: "bool option"
  ev_attachments :: "Attachment list option"
  ev_source :: "Source option"

text \<open>The object literal \<^verbatim>\<open>{}\<close> of type \<^verbatim>\<open>calendar_v3.Schema$Event\<close>.\<close>

definition empty_event :: Schema_Event where
  "empty_event =
     \<lparr> ev_summary = None, ev_start = None, ev_end = None, ev_id = None,
       ev_description = None, ev_location = None, ev_colorId = None, ev_recurrence = None,
       ev_transparency = None, ev_visibility = None, ev_attendees = None,
       ev_reminders = None, ev_conferenceData = None, ev_extendedProperties = None,
       ev_guestsCanInviteOthers = None, ev_guestsCanModify = None,
       ev_guestsCanSeeOtherGuests = None, ev_anyoneCanAddSelf = None,
       ev_attachments = None, ev_source = None \<rparr>"

section \<open>Translation of validated input into request values\<close>

text \<open>
  \<^verbatim>\<open>function mapAttendeesForRequest(attendees?: AttendeeInput[])\<close>: each attendee is
  rebuilt from its six properties; \<^verbatim>\<open>attendees?.map\<close> keeps \<^verbatim>\<open>undefined\<close>.
\<close>

definition mapAttendeesForRequest :: "Attendee list option \<Rightarrow> Attendee list option" where
  "mapAttendeesForRequest as =
     map_option (map (\<lambda>attendee.
       \<lparr> email = email attendee,
         optional = optional attendee,
         displayName = displayName attendee,
         responseStatus = responseStatus attendee,
         comment = comment attendee,
         additionalGuests = additionalGuests attendee \<rparr>)) as"

text \<open>\<^verbatim>\<open>Object.keys(mapped)\<close> for the reminders object under construction.\<close>

definition Reminders_keys :: "Reminders \<Rightarrow> string list" where
  "Reminders_keys mapped =
     (if g_useDefault mapped \<noteq> None then [''useDefault''] else []) @
     (if g_overrides mapped \<noteq> None then [''overrides''] else [])"

text \<open>\<^verbatim>\<open>function mapReminders(reminders?: RemindersInput)\<close>.\<close>

definition mapReminders :: "RemindersInput option \<Rightarrow> Reminders option" where
  "mapReminders rs =
     (case rs of
        None \<Rightarrow> None
      | Some r \<Rightarrow>
          (let overrides' =
                 map_option (map (\<lambda>override.
                     \<lparr> g_method = (case method' override of None \<Rightarrow> popup | Some m \<Rightarrow> m),
                       g_minutes = minutes override \<rparr>))
                   (overrides r);
               mapped = \<lparr> g_useDefault = None, g_overrides = None \<rparr>;
               mapped = (if useDefault r \<noteq> None
                         then mapped\<lparr> g_useDefault := useDefault r \<rparr> else mapped);
               mapped = (if (case overrides' of None \<Rightarrow> False | Some os \<Rightarrow> length os > 0)
                         then mapped\<lparr> g_overrides := overrides' \<rparr> else mapped)
           in if length (Reminders_keys mapped) > 0 then Some mapped else None))"

text \<open>
  \<^verbatim>\<open>function mapExtendedProperties(extendedProperties?: ExtendedPropertiesInput)\<close>;
  \<^verbatim>\<open>Object.keys(m).length > 0\<close> on a string record is non-emptiness of its entries.
\<close>

definition mapExtendedProperties :: "ExtendedPropertiesInput option \<Rightarrow> ExtendedProperties option" where
  "mapExtendedProperties eps =
     (case eps of
        None \<Rightarrow> None
      | Some ep \<Rightarrow>
          (let hasPrivate = (case private' ep of None \<Rightarrow> False | Some m \<Rightarrow> length m > 0);
               hasShared = (case shared ep of None \<Rightarrow> False | Some m \<Rightarrow> length m > 0)
           in if \<not> hasPrivate \<and> \<not> hasShared then None
              else Some \<lparr> g_private = (if hasPrivate then private' ep else None),
                          g_shared = (if hasShared then shared ep else None) \<rparr>))"

text \<open>
  \<^verbatim>\<open>function applyCommonEventFields(target, input)\<close>: sixteen guarded assignments, each
  to its own property of \<^verbatim>\<open>target\<close>; a property whose guard fails keeps its value.
\<close>

definition applyCommonEventFields ::
  "Schema_Event \<Rightarrow> 'a CommonEventFields_scheme \<Rightarrow> Schema_Event" where
  "applyCommonEventFields target input =
     target\<lparr>
       ev_description := (if description input \<noteq> None then description input
                          else ev_description target),
       ev_location := (if location input \<noteq> None then location input else ev_location target),
       ev_colorId := (if colorId input \<noteq> None then colorId input else ev_colorId target),
       ev_recurrence := (if recurrence input \<noteq> None then recurrence input
                         else ev_recurrence target),
       ev_transparency := (if transparency input \<noteq> None then transparency input
                           else ev_transparency target),
       ev_visibility := (if visibility input \<noteq> None then visibility input
                         else ev_visibility target),
       ev_attendees := (if attendees input \<noteq> None
                        then mapAttendeesForRequest (attendees input) else ev_attendees target),
       ev_reminders := (if reminders input \<noteq> None
                        then mapReminders (reminders input) else ev_reminders target),
       ev_conferenceData := (if conferenceData input \<noteq> None then conferenceData input
                             else ev_conferenceData target),
       ev_extendedProperties := (if extendedProperties input \<noteq> None
                                 then mapExtendedProperties (extendedProperties input)
                                 else ev_extendedProperties target),
       ev_guestsCanInviteOthers := (if guestsCanInviteOthers input \<noteq> None
                                    then guestsCanInviteOthers input
                                    else ev_guestsCanInviteOthers target),
       ev_guestsCanModify := (if guestsCanModify input \<noteq> None then guestsCanModify input
                              else ev_guestsCanModify target),
       ev_guestsCanSeeOtherGuests := (if guestsCanSeeOtherGuests input \<noteq> None
                                      then guestsCanSeeOtherGuests input
                                      else ev_guestsCanSeeOtherGuests target),
       ev_anyoneCanAddSelf := (if anyoneCanAddSelf input \<noteq> None then anyoneCanAddSelf input
                               else ev_anyoneCanAddSelf target),
       ev_attachments := (if attachments input \<noteq> None then attachments input
                          else ev_attachments target),
       ev_source := (if source input \<noteq> None then source input else ev_source target) \<rparr>"

text \<open>
  Truthiness of a value of type \<^verbatim>\<open>string | undefined\<close>: \<^verbatim>\<open>undefined\<close> and the empty
  string are falsy.
\<close>

fun truthy :: "string option \<Rightarrow> bool" where
  "truthy None = False"
| "truthy (Some s) = (s \<noteq> [])"

text \<open>\<^verbatim>\<open>function toGoogleDate(value: string, timeZone?: string)\<close>.\<close>

definition toGoogleDate :: "string \<Rightarrow> string option \<Rightarrow> EventDateTime" where
  "toGoogleDate v tz =
     (if re_test DATE_ONLY_REGEX v then \<lparr> date = Some v, dateTime = None, timeZone = None \<rparr>
      else if truthy tz then \<lparr> date = None, dateTime = Some v, timeZone = tz \<rparr>
      else \<lparr> date = None, dateTime = Some v, timeZone = None \<rparr>)"

section \<open>Inputs of the event tools\<close>

text \<open>
  \<^verbatim>\<open>createEventInput\<close>, \<^verbatim>\<open>updateEventInput\<close> and \<^verbatim>\<open>updateEventInstanceInput\<close> are each an
  object schema merged with \<^verbatim>\<open>commonEventFieldsSchema\<close>: a record extending
  \<open>CommonEventFields\<close>. A property with a default is always present after validation.
\<close>

record CreateEventInput = CommonEventFields +
  ce_calendarId :: string
  ce_summary :: string
  ce_start :: string
  ce_end :: string
  ce_timeZone :: "string option"
  ce_eventId :: "string option"
  ce_sendUpdates :: "SendUpdates option"

record UpdateEventInput = CommonEventFields +
  ue_calendarId :: string
  ue_eventId :: string
  ue_summary :: "string option"
  ue_start :: "string option"
  ue_end :: "string option"
  ue_timeZone :: "string option"
  ue_sendUpdates :: "SendUpdates option"

record UpdateEventInstanceInput = CommonEventFields +
  ui_calendarId :: string
  ui_instanceId :: string
  ui_summary :: "string option"
  ui_start :: "string option"
  ui_end :: "string option"
  ui_timeZone :: "string option"
  ui_sendUpdates :: "SendUpdates option"

text \<open>The request body the \<^verbatim>\<open>create-event\<close> handler builds before its backend call.\<close>

definition create_event_requestBody :: "CreateEventInput \<Rightarrow> Schema_Event" where
  "create_event_requestBody input =
     (let requestBody = empty_event\<lparr>
            ev_summary := Some (ce_summary input),
            ev_start := Some (toGoogleDate (ce_start input) (ce_timeZone input)),
            ev_end := Some (toGoogleDate (ce_end input) (ce_timeZone input)) \<rparr>;
          requestBody = requestBody\<lparr>
            ev_description := (if description input \<noteq> None then description input
                               else ev_description requestBody),
            ev_location := (if location input \<noteq> None then location input
                            else ev_location requestBody),
            ev_id := (if truthy (ce_eventId input) then ce_eventId input
                      else ev_id requestBody) \<rparr>
      in applyCommonEventFields requestBody input)"

text \<open>The request body of the \<^verbatim>\<open>update-event\<close> handler.\<close>

definition update_event_requestBody :: "UpdateEventInput \<Rightarrow> Schema_Event" where
  "update_event_requestBody input =
     (let requestBody = empty_event;
          requestBody = requestBody\<lparr>
            ev_summary := (if ue_summary input \<noteq> None then ue_summary input
                           else ev_summary requestBody),
            ev_start := (if ue_start input \<noteq> None
                         then Some (toGoogleDate (the (ue_start input)) (ue_timeZone input))
                         else ev_start requestBody),
            ev_end := (if ue_end input \<noteq> None
                       then Some (toGoogleDate (the (ue_end input)) (ue_timeZone input))
                       else ev_end requestBody) \<rparr>
      in applyCommonEventFields requestBody input)"

text \<open>The request body of the \<^verbatim>\<open>update-event-instance\<close> handler.\<close>

definition update_event_instance_requestBody :: "UpdateEventInstanceInput \<Rightarrow> Schema_Event" where
  "update_event_instance_requestBody input =
     (let requestBody = empty_event;
          requestBody = requestBody\<lparr>
            ev_summary := (if ui_summary input \<noteq> None then ui_summary input
                           else ev_summary requestBody),
            ev_start := (if ui_start input \<noteq> None
                         then Some (toGoogleDate (the (ui_start input)) (ui_timeZone input))
                         else ev_start requestBody),
            ev_end := (if ui_end input \<noteq> None
                       then Some (toGoogleDate (the (ui_end input)) (ui_timeZone input))
                       else ev_end requestBody) \<rparr>
      in applyCommonEventFields requestBody input)"

section \<open>The validation library\<close>

text \<open>
  The schemas are built with the zod library, which is not part of the repository. Its
  parsing is modelled as far as the schemas use it: a schema maps a raw value (\<open>None\<close> is
  \<^verbatim>\<open>undefined\<close>) to the list of every issue found or to the typed value. The library's
  default message texts and its e-mail and URL tests are parameters; only
  \<^verbatim>\<open>issue.message\<close> is read by the server, so an issue's path is not kept.
\<close>

datatype ZodIssueCode =
    invalid_type string string
  | invalid_enum_value "string list"
  | too_small string number
  | too_big string number
  | invalid_string string
  | custom

record ZodIssue =
  code :: ZodIssueCode
  message :: string

record zod =
  errorMap :: "ZodIssueCode \<Rightarrow> string"
  isEmail :: "string \<Rightarrow> bool"
  isURL :: "string \<Rightarrow> bool"

type_synonym 'a parsed = "ZodIssue list + 'a"
type_synonym 'a ZodType = "json option \<Rightarrow> 'a parsed"

definition issue :: "zod \<Rightarrow> ZodIssueCode \<Rightarrow> ZodIssue" where
  "issue Z c = \<lparr> code = c, message = errorMap Z c \<rparr>"

fun getParsedType :: "json option \<Rightarrow> string" where
  "getParsedType None = ''undefined''"
| "getParsedType (Some JNull) = ''null''"
| "getParsedType (Some (JBool _)) = ''boolean''"
| "getParsedType (Some (JNum _)) = ''number''"
| "getParsedType (Some (JStr _)) = ''string''"
| "getParsedType (Some (JArr _)) = ''array''"
| "getParsedType (Some (JObj _)) = ''object''"

text \<open>Two results side by side: the issues of both are kept, in order.\<close>

fun both :: "'a parsed \<Rightarrow> 'b parsed \<Rightarrow> ('a \<times> 'b) parsed" where
  "both (Inr a) (Inr b) = Inr (a, b)"
| "both (Inl i) (Inl j) = Inl (i @ j)"
| "both (Inl i) (Inr _) = Inl i"
| "both (Inr _) (Inl j) = Inl j"

definition ap :: "('a \<Rightarrow> 'b) parsed \<Rightarrow> 'a parsed \<Rightarrow> 'b parsed" where
  "ap f a = map_sum id (\<lambda>(g, v). g v) (both f a)"

fun collect :: "'a parsed list \<Rightarrow> 'a list parsed" where
  "collect [] = Inr []"
| "collect (r # rs) = map_sum id (\<lambda>(v, vs). v # vs) (both r (collect rs))"

definition z_string :: "zod \<Rightarrow> string ZodType" where
  "z_string Z x =
     (case x of
        Some (JStr s) \<Rightarrow> Inr s
      | _ \<Rightarrow> Inl [issue Z (invalid_type ''string'' (getParsedType x))])"

definition z_boolean :: "zod \<Rightarrow> bool ZodType" where
  "z_boolean Z x =
     (case x of
        Some (JBool b) \<Rightarrow> Inr b
      | _ \<Rightarrow> Inl [issue Z (invalid_type ''boolean'' (getParsedType x))])"

text \<open>A check on a value of the right type (\<^verbatim>\<open>.email()\<close>, \<^verbatim>\<open>.url()\<close>, \<^verbatim>\<open>.regex()\<close>, \<^verbatim>\<open>.min()\<close>).\<close>

definition z_check :: "'a ZodType \<Rightarrow> ('a \<Rightarrow> bool) \<Rightarrow> ZodIssue \<Rightarrow> 'a ZodType" where
  "z_check p ok i x =
     (case p x of Inl is \<Rightarrow> Inl is | Inr v \<Rightarrow> if ok v then Inr v else Inl [i])"

text \<open>\<^verbatim>\<open>z.number()\<close> with its checks, all of which run on a number.\<close>

datatype number_check = int_check | min_check number | max_check number

definition isInteger :: "number \<Rightarrow> bool" where
  "isInteger n = (of_int \<lfloor>n\<rfloor> = n)"

fun number_check_issue :: "number \<Rightarrow> number_check \<Rightarrow> ZodIssueCode option" where
  "number_check_issue n int_check =
     (if isInteger n then None else Some (invalid_type ''integer'' ''float''))"
| "number_check_issue n (min_check m) =
     (if n < m then Some (too_small ''number'' m) else None)"
| "number_check_issue n (max_check m) =
     (if n > m then Some (too_big ''number'' m) else None)"

definition z_number :: "zod \<Rightarrow> number_check list \<Rightarrow> number ZodType" where
  "z_number Z checks x =
     (case x of
        Some (JNum n) \<Rightarrow>
          (case List.map_filter (number_check_issue n) checks of
             [] \<Rightarrow> Inr n
           | cs \<Rightarrow> Inl (map (issue Z) cs))
      | _ \<Rightarrow> Inl [issue Z (invalid_type ''number'' (getParsedType x))])"

text \<open>\<^verbatim>\<open>z.enum([...])\<close>: each literal with the value it denotes.\<close>

definition joinValues :: "string list \<Rightarrow> string" where
  "joinValues vs = join '' | '' (map (\<lambda>v. [CHR 0x27] @ v @ [CHR 0x27]) vs)"

definition z_enum :: "zod \<Rightarrow> (string \<times> 'a) list \<Rightarrow> 'a ZodType" where
  "z_enum Z vs x =
     (case x of
        Some (JStr s) \<Rightarrow>
          (case map_of vs s of
             Some v \<Rightarrow> Inr v
           | None \<Rightarrow> Inl [issue Z (invalid_enum_value (map fst vs))])
      | _ \<Rightarrow> Inl [issue Z (invalid_type (joinValues (map fst vs)) (getParsedType x))])"

text \<open>\<^verbatim>\<open>.optional()\<close> and \<^verbatim>\<open>.default(d)\<close> act on \<^verbatim>\<open>undefined\<close> only.\<close>

definition z_optional :: "'a ZodType \<Rightarrow> 'a option ZodType" where
  "z_optional p x = (case x of None \<Rightarrow> Inr None | Some _ \<Rightarrow> map_sum id Some (p x))"

definition z_default :: "'a ZodType \<Rightarrow> json \<Rightarrow> 'a ZodType" where
  "z_default p d x = (case x of None \<Rightarrow> p (Some d) | Some _ \<Rightarrow> p x)"

text \<open>\<^verbatim>\<open>z.array(p)\<close>, with \<^verbatim>\<open>.min(n)\<close> when a minimum length is given.\<close>

definition z_array :: "zod \<Rightarrow> nat option \<Rightarrow> 'a ZodType \<Rightarrow> 'a list ZodType" where
  "z_array Z minLength p x =
     (case x of
        Some (JArr xs) \<Rightarrow>
          map_sum id snd
            (both (case minLength of
                     None \<Rightarrow> Inr ()
                   | Some n \<Rightarrow> if length xs < n
                              then Inl [issue Z (too_small ''array'' (of_nat n))] else Inr ())
                  (collect (map (\<lambda>e. p (Some e)) xs)))
      | _ \<Rightarrow> Inl [issue Z (invalid_type ''array'' (getParsedType x))])"

text \<open>\<^verbatim>\<open>z.record(p)\<close>: an object whose every value satisfies \<open>p\<close>.\<close>

definition z_record :: "zod \<Rightarrow> 'a ZodType \<Rightarrow> (string \<times> 'a) list ZodType" where
  "z_record Z p x =
     (case x of
        Some (JObj ob) \<Rightarrow> collect (map (\<lambda>(k, v). map_sum id (Pair k) (p (Some v))) ob)
      | _ \<Rightarrow> Inl [issue Z (invalid_type ''object'' (getParsedType x))])"

text \<open>\<^verbatim>\<open>z.custom(check, { message })\<close>.\<close>

definition z_custom :: "(json option \<Rightarrow> bool) \<Rightarrow> string \<Rightarrow> json ZodType" where
  "z_custom check msg x =
     (case x of
        Some v \<Rightarrow> if check x then Inr v else Inl [\<lparr> code = custom, message = msg \<rparr>]
      | None \<Rightarrow> Inl [\<lparr> code = custom, message = msg \<rparr>])"

text \<open>
  \<^verbatim>\<open>z.object(shape)\<close>: the value must be an object; each property of the shape is parsed in
  the order of the shape and properties outside the shape are dropped.
\<close>

definition z_object :: "zod \<Rightarrow> (obj \<Rightarrow> 'a parsed) \<Rightarrow> 'a ZodType" where
  "z_object Z shape x =
     (case x of
        Some (JObj ob) \<Rightarrow> shape ob
      | _ \<Rightarrow> Inl [issue Z (invalid_type ''object'' (getParsedType x))])"

definition field :: "obj \<Rightarrow> string \<Rightarrow> 'a ZodType \<Rightarrow> 'a parsed" where
  "field ob k p = p (get_prop ob k)"

section \<open>The schemas of the server\<close>

text \<open>\<^verbatim>\<open>z.string().regex(propertyFilterRegex, "Must be in key=value format")\<close>.\<close>

definition propertyFilterSchema :: "zod \<Rightarrow> string ZodType" where
  "propertyFilterSchema Z =
     z_check (z_string Z) propertyFilterRegex_test
       \<lparr> code = invalid_string ''regex'', message = ''Must be in key=value format'' \<rparr>"

definition z_email :: "zod \<Rightarrow> string ZodType" where
  "z_email Z = z_check (z_string Z) (isEmail Z) (issue Z (invalid_string ''email''))"

definition z_url :: "zod \<Rightarrow> string ZodType" where
  "z_url Z = z_check (z_string Z) (isURL Z) (issue Z (invalid_string ''url''))"

definition attendeeSchema :: "zod \<Rightarrow> Attendee ZodType" where
  "attendeeSchema Z =
     z_object Z (\<lambda>ob.
       ap (ap (ap (ap (ap (ap
         (Inr (\<lambda>e opt dn rs c ag.
            \<lparr> email = e, optional = opt, displayName = dn, responseStatus = rs,
              comment = c, additionalGuests = ag \<rparr>))
         (field ob ''email'' (z_email Z)))
         (field ob ''optional'' (z_optional (z_boolean Z))))
         (field ob ''displayName'' (z_optional (z_string Z))))
         (field ob ''responseStatus''
            (z_optional (z_enum Z
               [(''needsAction'', needsAction), (''declined'', declined),
                (''tentative'', tentative), (''accepted'', accepted)]))))
         (field ob ''comment'' (z_optional (z_string Z))))
         (field ob ''additionalGuests'' (z_optional (z_number Z [int_check, min_check 0]))))"

definition reminderOverrideSchema :: "zod \<Rightarrow> ReminderOverrideInput ZodType" where
  "reminderOverrideSchema Z =
     z_object Z (\<lambda>ob.
       ap (ap
         (Inr (\<lambda>m n. \<lparr> method' = m, minutes = n \<rparr>))
         (field ob ''method''
            (z_optional (z_enum Z [(''email'', email_method), (''popup'', popup)]))))
         (field ob ''minutes'' (z_number Z [int_check, min_check 0])))"

definition remindersSchema :: "zod \<Rightarrow> RemindersInput ZodType" where
  "remindersSchema Z =
     z_object Z (\<lambda>ob.
       ap (ap
         (Inr (\<lambda>u os. \<lparr> useDefault = u, overrides = os \<rparr>))
         (field ob ''useDefault'' (z_optional (z_boolean Z))))
         (field ob ''overrides''
            (z_optional (z_array Z (Some 1) (reminderOverrideSchema Z)))))"

definition extendedPropertiesSchema :: "zod \<Rightarrow> ExtendedPropertiesInput option ZodType" where
  "extendedPropertiesSchema Z =
     z_optional (z_object Z (\<lambda>ob.
       ap (ap
         (Inr (\<lambda>p s. \<lparr> private' = p, shared = s \<rparr>))
         (field ob ''private'' (z_optional (z_record Z (z_string Z)))))
         (field ob ''shared'' (z_optional (z_record Z (z_string Z))))))"

definition attachmentsSchema :: "zod \<Rightarrow> Attachment list option ZodType" where
  "attachmentsSchema Z =
     z_optional (z_array Z None (z_object Z (\<lambda>ob.
       ap (ap (ap (ap (ap
         (Inr (\<lambda>fu t mt il fi.
            \<lparr> fileUrl = fu, title = t, mimeType = mt, iconLink = il, fileId = fi \<rparr>))
         (field ob ''fileUrl'' (z_url Z)))
         (field ob ''title'' (z_optional (z_string Z))))
         (field ob ''mimeType'' (z_optional (z_string Z))))
         (field ob ''iconLink'' (z_optional (z_url Z))))
         (field ob ''fileId'' (z_optional (z_string Z))))))"

definition sourceSchema :: "zod \<Rightarrow> Source option ZodType" where
  "sourceSchema Z =
     z_optional (z_object Z (\<lambda>ob.
       ap (ap
         (Inr (\<lambda>t u. \<lparr> source_title = t, url = u \<rparr>))
         (field ob ''title'' (z_string Z)))
         (field ob ''url'' (z_url Z))))"

text \<open>
  \<^verbatim>\<open>z.custom((value) => typeof value === "object" && value !== null, ...).optional()\<close>:
  of the JSON values, objects and arrays have type \<^verbatim>\<open>"object"\<close> and are not \<^verbatim>\<open>null\<close>.
\<close>

fun is_nonnull_object :: "json option \<Rightarrow> bool" where
  "is_nonnull_object (Some (JObj _)) = True"
| "is_nonnull_object (Some (JArr _)) = True"
| "is_nonnull_object _ = False"

definition conferenceDataSchema :: "json option ZodType" where
  "conferenceDataSchema =
     z_optional (z_custom is_nonnull_object ''conferenceData must be an object'')"

text \<open>The shape of \<^verbatim>\<open>commonEventFieldsSchema\<close>, read from an object.\<close>

definition commonEventFields_shape :: "zod \<Rightarrow> obj \<Rightarrow> CommonEventFields parsed" where
  "commonEventFields_shape Z ob =
     ap (ap (ap (ap (ap (ap (ap (ap (ap (ap (ap (ap (ap (ap (ap (ap
       (Inr (\<lambda>v1 v2 v3 v4 v5 v6 v7 v8 v9 v10 v11 v12 v13 v14 v15 v16.
          \<lparr> description = v1, location = v2, colorId = v3, recurrence = v4,
            transparency = v5, visibility = v6, attendees = v7, reminders = v8,
            conferenceData = v9, extendedProperties = v10, guestsCanInviteOthers = v11,
            guestsCanModify = v12, guestsCanSeeOtherGuests = v13, anyoneCanAddSelf = v14,
            attachments = v15, source = v16 \<rparr>))
       (field ob ''description'' (z_optional (z_string Z))))
       (field ob ''location'' (z_optional (z_string Z))))
       (field ob ''colorId'' (z_optional (z_string Z))))
       (field ob ''recurrence'' (z_optional (z_array Z None (z_string Z)))))
       (field ob ''transparency''
          (z_optional (z_enum Z [(''opaque'', opaque), (''transparent'', transparent)]))))
       (field ob ''visibility''
          (z_optional (z_enum Z
             [(''default'', default_visibility), (''public'', public_visibility),
              (''private'', private_visibility), (''confidential'', confidential)]))))
       (field ob ''attendees'' (z_optional (z_array Z None (attendeeSchema Z)))))
       (field ob ''reminders'' (z_optional (remindersSchema Z))))
       (field ob ''conferenceData'' conferenceDataSchema))
       (field ob ''extendedProperties'' (extendedPropertiesSchema Z)))
       (field ob ''guestsCanInviteOthers'' (z_optional (z_boolean Z))))
       (field ob ''guestsCanModify'' (z_optional (z_boolean Z))))
       (field ob ''guestsCanSeeOtherGuests'' (z_optional (z_boolean Z))))
       (field ob ''anyoneCanAddSelf'' (z_optional (z_boolean Z))))
       (field ob ''attachments'' (attachmentsSchema Z)))
       (field ob ''source'' (sourceSchema Z))"

definition commonEventFieldsSchema :: "zod \<Rightarrow> CommonEventFields ZodType" where
  "commonEventFieldsSchema Z = z_object Z (commonEventFields_shape Z)"

definition z_sendUpdates :: "zod \<Rightarrow> SendUpdates option ZodType" where
  "z_sendUpdates Z =
     z_optional (z_enum Z
       [(''all'', all_updates), (''externalOnly'', externalOnly), (''none'', none_updates)])"

text \<open>
  \<^verbatim>\<open>createEventInput\<close>: seven properties of its own, merged with the common event fields;
  the merged shape lists its own properties first.
\<close>

definition createEventInput :: "zod \<Rightarrow> CreateEventInput ZodType" where
  "createEventInput Z =
     z_object Z (\<lambda>ob.
       ap (ap (ap (ap (ap (ap (ap (ap
         (Inr (\<lambda>ci su st en tz ei sn common.
            CommonEventFields.extend common (CreateEventInput.fields ci su st en tz ei sn)))
         (field ob ''calendarId'' (z_default (z_string Z) (JStr ''primary''))))
         (field ob ''summary'' (z_string Z)))
         (field ob ''start'' (z_string Z)))
         (field ob ''end'' (z_string Z)))
         (field ob ''timeZone'' (z_optional (z_string Z))))
         (field ob ''eventId'' (z_optional (z_string Z))))
         (field ob ''sendUpdates'' (z_sendUpdates Z)))
         (commonEventFields_shape Z ob))"

definition updateEventInput :: "zod \<Rightarrow> UpdateEventInput ZodType" where
  "updateEventInput Z =
     z_object Z (\<lambda>ob.
       ap (ap (ap (ap (ap (ap (ap (ap
         (Inr (\<lambda>ci ei su st en tz sn common.
            CommonEventFields.extend common (UpdateEventInput.fields ci ei su st en tz sn)))
         (field ob ''calendarId'' (z_default (z_string Z) (JStr ''primary''))))
         (field ob ''eventId'' (z_string Z)))
         (field ob ''summary'' (z_optional (z_string Z))))
         (field ob ''start'' (z_optional (z_string Z))))
         (field ob ''end'' (z_optional (z_string Z))))
         (field ob ''timeZone'' (z_optional (z_string Z))))
         (field ob ''sendUpdates'' (z_sendUpdates Z)))
         (commonEventFields_shape Z ob))"

definition updateEventInstanceInput :: "zod \<Rightarrow> UpdateEventInstanceInput ZodType" where
  "updateEventInstanceInput Z =
     z_object Z (\<lambda>ob.
       ap (ap (ap (ap (ap (ap (ap (ap
         (Inr (\<lambda>ci ii su st en tz sn common.
            CommonEventFields.extend common
              (UpdateEventInstanceInput.fields ci ii su st en tz sn)))
         (field ob ''calendarId'' (z_default (z_string Z) (JStr ''primary''))))
         (field ob ''instanceId'' (z_string Z)))
         (field ob ''summary'' (z_optional (z_string Z))))
         (field ob ''start'' (z_optional (z_string Z))))
         (field ob ''end'' (z_optional (z_string Z))))
         (field ob ''timeZone'' (z_optional (z_string Z))))
         (field ob ''sendUpdates'' (z_sendUpdates Z)))
         (commonEventFields_shape Z ob))"

section \<open>Inputs of the listing and task tools\<close>

record ListEventsInput =
  le_calendarId :: string
  le_timeMin :: "string option"
  le_timeMax :: "string option"
  le_maxResults :: "number option"
  le_query :: "string option"
  le_singleEvents :: "bool option"
  le_orderBy :: "string option"
  le_showDeleted :: "bool option"
  le_timeZone :: "string option"
  le_pageToken :: "string option"
  le_syncToken :: "string option"
  le_privateExtendedProperty :: "string list option"
  le_sharedExtendedProperty :: "string list option"

definition z_orderBy :: "zod \<Rightarrow> string option ZodType" where
  "z_orderBy Z =
     z_optional (z_enum Z [(''startTime'', ''startTime''), (''updated'', ''updated'')])"

definition listEventsInput :: "zod \<Rightarrow> ListEventsInput ZodType" where
  "listEventsInput Z =
     z_object Z (\<lambda>ob.
       ap (ap (ap (ap (ap (ap (ap (ap (ap (ap (ap (ap (ap
         (Inr (\<lambda>v1 v2 v3 v4 v5 v6 v7 v8 v9 v10 v11 v12 v13.
            \<lparr> le_calendarId = v1, le_timeMin = v2, le_timeMax = v3, le_maxResults = v4,
              le_query = v5, le_singleEvents = v6, le_orderBy = v7, le_showDeleted = v8,
              le_timeZone = v9, le_pageToken = v10, le_syncToken = v11,
              le_privateExtendedProperty = v12, le_sharedExtendedProperty = v13 \<rparr>))
         (field ob ''calendarId'' (z_default (z_string Z) (JStr ''primary''))))
         (field ob ''timeMin'' (z_optional (z_string Z))))
         (field ob ''timeMax'' (z_optional (z_string Z))))
         (field ob ''maxResults''
            (z_optional (z_number Z [int_check, min_check 1, max_check 2500]))))
         (field ob ''query'' (z_optional (z_string Z))))
         (field ob ''singleEvents'' (z_optional (z_boolean Z))))
         (field ob ''orderBy'' (z_orderBy Z)))
         (field ob ''showDeleted'' (z_optional (z_boolean Z))))
         (field ob ''timeZone'' (z_optional (z_string Z))))
         (field ob ''pageToken'' (z_optional (z_string Z))))
         (field ob ''syncToken'' (z_optional (z_string Z))))
         (field ob ''privateExtendedProperty''
            (z_optional (z_array Z None (propertyFilterSchema Z)))))
         (field ob ''sharedExtendedProperty''
            (z_optional (z_array Z None (propertyFilterSchema Z)))))"

record SearchEventsInput =
  se_calendarIds :: "string list"
  se_query :: string
  se_timeMin :: "string option"
  se_timeMax :: "string option"
  se_maxResultsPerCalendar :: "number option"
  se_timeZone :: "string option"
  se_orderBy :: "string option"
  se_showDeleted :: "bool option"
  se_singleEvents :: "bool option"
  se_privateExtendedProperty :: "string list option"
  se_sharedExtendedProperty :: "string list option"

definition searchEventsInput :: "zod \<Rightarrow> SearchEventsInput ZodType" where
  "searchEventsInput Z =
     z_object Z (\<lambda>ob.
       ap (ap (ap (ap (ap (ap (ap (ap (ap (ap (ap
         (Inr (\<lambda>v1 v2 v3 v4 v5 v6 v7 v8 v9 v10 v11.
            \<lparr> se_calendarIds = v1, se_query = v2, se_timeMin = v3, se_timeMax = v4,
              se_maxResultsPerCalendar = v5, se_timeZone = v6, se_orderBy = v7,
              se_showDeleted = v8, se_singleEvents = v9,
              se_privateExtendedProperty = v10, se_sharedExtendedProperty = v11 \<rparr>))
         (field ob ''calendarIds''
            (z_default (z_array Z (Some 1) (z_string Z)) (JArr [JStr ''primary'']))))
         (field ob ''query''
            (z_check (z_string Z) (\<lambda>s. length s \<ge> 1) (issue Z (too_small ''string'' 1)))))
         (field ob ''timeMin'' (z_optional (z_string Z))))
         (field ob ''timeMax'' (z_optional (z_string Z))))
         (field ob ''maxResultsPerCalendar''
            (z_optional (z_number Z [int_check, min_check 1, max_check 2500]))))
         (field ob ''timeZone'' (z_optional (z_string Z))))
         (field ob ''orderBy'' (z_orderBy Z)))
         (field ob ''showDeleted'' (z_optional (z_boolean Z))))
         (field ob ''singleEvents'' (z_optional (z_boolean Z))))
         (field ob ''privateExtendedProperty''
            (z_optional (z_array Z None (propertyFilterSchema Z)))))
         (field ob ''sharedExtendedProperty''
            (z_optional (z_array Z None (propertyFilterSchema Z)))))"

record UpdateTaskInput =
  ut_tasklistId :: string
  ut_taskId :: string
  ut_title :: "string option"
  ut_notes :: "string option"
  ut_due :: "string option"
  ut_status :: "TaskStatus option"

definition updateTaskInput :: "zod \<Rightarrow> UpdateTaskInput ZodType" where
  "updateTaskInput Z =
     z_object Z (\<lambda>ob.
       ap (ap (ap (ap (ap (ap
         (Inr (\<lambda>v1 v2 v3 v4 v5 v6.
            \<lparr> ut_tasklistId = v1, ut_taskId = v2, ut_title = v3, ut_notes = v4,
              ut_due = v5, ut_status = v6 \<rparr>))
         (field ob ''tasklistId'' (z_default (z_string Z) (JStr ''@default''))))
         (field ob ''taskId'' (z_string Z)))
         (field ob ''title'' (z_optional (z_string Z))))
         (field ob ''notes'' (z_optional (z_string Z))))
         (field ob ''due'' (z_optional (z_string Z))))
         (field ob ''status''
            (z_optional (z_enum Z
               [(''needsAction'', task_needsAction), (''completed'', task_completed)]))))"

record CompleteTaskInput =
  ct_tasklistId :: string
  ct_taskId :: string

definition completeTaskInput :: "zod \<Rightarrow> CompleteTaskInput ZodType" where
  "completeTaskInput Z =
     z_object Z (\<lambda>ob.
       ap (ap
         (Inr (\<lambda>v1 v2. \<lparr> ct_tasklistId = v1, ct_taskId = v2 \<rparr>))
         (field ob ''tasklistId'' (z_default (z_string Z) (JStr ''@default''))))
         (field ob ''taskId'' (z_string Z)))"

record ListEventInstancesInput =
  li_calendarId :: string
  li_recurringEventId :: string
  li_timeMin :: "string option"
  li_timeMax :: "string option"
  li_maxResults :: "number option"
  li_pageToken :: "string option"
  li_showDeleted :: "bool option"
  li_timeZone :: "string option"

definition listEventInstancesInput :: "zod \<Rightarrow> ListEventInstancesInput ZodType" where
  "listEventInstancesInput Z =
     z_object Z (\<lambda>ob.
       ap (ap (ap (ap (ap (ap (ap (ap
         (Inr (\<lambda>v1 v2 v3 v4 v5 v6 v7 v8.
            \<lparr> li_calendarId = v1, li_recurringEventId = v2, li_timeMin = v3,
              li_timeMax = v4, li_maxResults = v5, li_pageToken = v6, li_showDeleted = v7,
              li_timeZone = v8 \<rparr>))
         (field ob ''calendarId'' (z_default (z_string Z) (JStr ''primary''))))
         (field ob ''recurringEventId'' (z_string Z)))
         (field ob ''timeMin'' (z_optional (z_string Z))))
         (field ob ''timeMax'' (z_optional (z_string Z))))
         (field ob ''maxResults''
            (z_optional (z_number Z [int_check, min_check 1, max_check 2500]))))
         (field ob ''pageToken'' (z_optional (z_string Z))))
         (field ob ''showDeleted'' (z_optional (z_boolean Z))))
         (field ob ''timeZone'' (z_optional (z_string Z))))"

record DeleteEventInput =
  de_calendarId :: string
  de_eventId :: string
  de_sendUpdates :: "SendUpdates option"

definition deleteEventInput :: "zod \<Rightarrow> DeleteEventInput ZodType" where
  "deleteEventInput Z =
     z_object Z (\<lambda>ob.
       ap (ap (ap
         (Inr (\<lambda>v1 v2 v3. \<lparr> de_calendarId = v1, de_eventId = v2, de_sendUpdates = v3 \<rparr>))
         (field ob ''calendarId'' (z_default (z_string Z) (JStr ''primary''))))
         (field ob ''eventId'' (z_string Z)))
         (field ob ''sendUpdates'' (z_sendUpdates Z)))"

record DeleteEventInstanceInput =
  di_calendarId :: string
  di_instanceId :: string
  di_sendUpdates :: "SendUpdates option"

definition deleteEventInstanceInput :: "zod \<Rightarrow> DeleteEventInstanceInput ZodType" where
  "deleteEventInstanceInput Z =
     z_object Z (\<lambda>ob.
       ap (ap (ap
         (Inr (\<lambda>v1 v2 v3.
            \<lparr> di_calendarId = v1, di_instanceId = v2, di_sendUpdates = v3 \<rparr>))
         (field ob ''calendarId'' (z_default (z_string Z) (JStr ''primary''))))
         (field ob ''instanceId'' (z_string Z)))
         (field ob ''sendUpdates'' (z_sendUpdates Z)))"

record ListTasksInput =
  lt_tasklistId :: string
  lt_showCompleted :: "bool option"
  lt_showDeleted :: "bool option"
  lt_maxResults :: "number option"
  lt_dueMin :: "string option"
  lt_dueMax :: "string option"

definition listTasksInput :: "zod \<Rightarrow> ListTasksInput ZodType" where
  "listTasksInput Z =
     z_object Z (\<lambda>ob.
       ap (ap (ap (ap (ap (ap
         (Inr (\<lambda>v1 v2 v3 v4 v5 v6.
            \<lparr> lt_tasklistId = v1, lt_showCompleted = v2, lt_showDeleted = v3,
              lt_maxResults = v4, lt_dueMin = v5, lt_dueMax = v6 \<rparr>))
         (field ob ''tasklistId'' (z_default (z_string Z) (JStr ''@default''))))
         (field ob ''showCompleted'' (z_optional (z_boolean Z))))
         (field ob ''showDeleted'' (z_optional (z_boolean Z))))
         (field ob ''maxResults''
            (z_optional (z_number Z [int_check, min_check 1, max_check 100]))))
         (field ob ''dueMin'' (z_optional (z_string Z))))
         (field ob ''dueMax'' (z_optional (z_string Z))))"

record CreateTaskInput =
  nt_tasklistId :: string
  nt_title :: string
  nt_notes :: "string option"
  nt_due :: "string option"

definition createTaskInput :: "zod \<Rightarrow> CreateTaskInput ZodType" where
  "createTaskInput Z =
     z_object Z (\<lambda>ob.
       ap (ap (ap (ap
         (Inr (\<lambda>v1 v2 v3 v4.
            \<lparr> nt_tasklistId = v1, nt_title = v2, nt_notes = v3, nt_due = v4 \<rparr>))
         (field ob ''tasklistId'' (z_default (z_string Z) (JStr ''@default''))))
         (field ob ''title'' (z_string Z)))
         (field ob ''notes'' (z_optional (z_string Z))))
         (field ob ''due'' (z_optional (z_string Z))))"

record DeleteTaskInput =
  dt_tasklistId :: string
  dt_taskId :: string

definition deleteTaskInput :: "zod \<Rightarrow> DeleteTaskInput ZodType" where
  "deleteTaskInput Z =
     z_object Z (\<lambda>ob.
       ap (ap
         (Inr (\<lambda>v1 v2. \<lparr> dt_tasklistId = v1, dt_taskId = v2 \<rparr>))
         (field ob ''tasklistId'' (z_default (z_string Z) (JStr ''@default''))))
         (field ob ''taskId'' (z_string Z)))"

text \<open>\<^verbatim>\<open>z.object({})\<close>, the schema of \<^verbatim>\<open>list-calendars\<close> and of \<^verbatim>\<open>list-tasklists\<close>.\<close>

definition emptyObjectInput :: "zod \<Rightarrow> unit ZodType" where
  "emptyObjectInput Z = z_object Z (\<lambda>ob. Inr ())"

section \<open>The backends\<close>

text \<open>
  What a \<^verbatim>\<open>try\<close> block can catch, as far as the \<^verbatim>\<open>catch\<close> clause of \<^verbatim>\<open>registerTool\<close> tells
  values apart: a protocol error (\<open>McpError code message\<close> is
  \<^verbatim>\<open>new McpError(code, message)\<close>, with the two arguments of the constructor), a validation
  error, any other object with a \<^verbatim>\<open>message\<close> property (carrying
  \<^verbatim>\<open>String(error.message)\<close>), and anything else.
\<close>

datatype ErrorCode = InvalidParams | InternalError

datatype thrown =
    McpError ErrorCode string
  | ZodError "ZodIssue list"
  | ErrorWithMessage string
  | OtherThrown

text \<open>The parameters of the API methods the modelled handlers call.\<close>

record EventsListParams =
  el_calendarId :: string
  el_timeMin :: "string option"
  el_timeMax :: "string option"
  el_maxResults :: "number option"
  el_q :: "string option"
  el_singleEvents :: "bool option"
  el_orderBy :: "string option"
  el_showDeleted :: "bool option"
  el_timeZone :: "string option"
  el_pageToken :: "string option"
  el_syncToken :: "string option"
  el_privateExtendedProperty :: "string list option"
  el_sharedExtendedProperty :: "string list option"

record EventsInsertParams =
  ei_calendarId :: string
  ei_requestBody :: Schema_Event
  ei_sendUpdates :: "SendUpdates option"
  ei_supportsAttachments :: "bool option"
  ei_conferenceDataVersion :: "number option"

record EventsPatchParams =
  ep_calendarId :: string
  ep_eventId :: string
  ep_requestBody :: Schema_Event
  ep_sendUpdates :: "SendUpdates option"
  ep_supportsAttachments :: "bool option"
  ep_conferenceDataVersion :: "number option"

record EventsInstancesParams =
  en_calendarId :: string
  en_eventId :: string
  en_timeMin :: "string option"
  en_timeMax :: "string option"
  en_maxResults :: "number option"
  en_pageToken :: "string option"
  en_showDeleted :: "bool option"
  en_timeZone :: "string option"

record EventsDeleteParams =
  ed_calendarId :: string
  ed_eventId :: string
  ed_sendUpdates :: "SendUpdates option"

record TasklistsListParams =
  tl_maxResults :: number

record TasksListParams =
  ls_tasklist :: string
  ls_showCompleted :: "bool option"
  ls_showDeleted :: "bool option"
  ls_maxResults :: "number option"
  ls_dueMin :: "string option"
  ls_dueMax :: "string option"

record Schema_Task =
  tk_title :: "string option"
  tk_notes :: "string option"
  tk_due :: "string option"
  tk_status :: "TaskStatus option"
  tk_completed :: "string option"

record TasksInsertParams =
  ti_tasklist :: string
  ti_requestBody :: Schema_Task

record TasksPatchParams =
  tp_tasklist :: string
  tp_task :: string
  tp_requestBody :: Schema_Task

record TasksDeleteParams =
  td_tasklist :: string
  td_task :: string

text \<open>
  \<^verbatim>\<open>response.data\<close> of the listing methods, by the properties the handlers read; \<open>None\<close>
  is \<^verbatim>\<open>null\<close> or \<^verbatim>\<open>undefined\<close>. A calendar list entry, an event, a task list and a task are
  JSON objects; a deletion returns nothing.
\<close>

record Schema_CalendarList =
  cl_items :: "obj list option"

record Schema_Events =
  items :: "obj list option"
  nextPageToken :: "string option"
  nextSyncToken :: "string option"

record Schema_TaskLists =
  tl_items :: "obj list option"
  tl_nextPageToken :: "string option"

record Schema_Tasks =
  ls_items :: "obj list option"
  ls_nextPageToken :: "string option"

datatype api_call =
    calendar_calendarList_list
  | calendar_events_list EventsListParams
  | calendar_events_instances EventsInstancesParams
  | calendar_events_insert EventsInsertParams
  | calendar_events_patch EventsPatchParams
  | calendar_events_delete EventsDeleteParams
  | tasks_tasklists_list TasklistsListParams
  | tasks_tasks_list TasksListParams
  | tasks_tasks_insert TasksInsertParams
  | tasks_tasks_patch TasksPatchParams
  | tasks_tasks_delete TasksDeleteParams

text \<open>
  A backend method answers in a world \<open>'w\<close> (the remote service and everything else outside
  the server), returning or throwing, and leaves a new world. The state of an invocation
  is the world and the log of the calls made so far, each with what it threw, if it did.
\<close>

record 'w calendar_v3 =
  calendarList_list :: "'w \<Rightarrow> (thrown + Schema_CalendarList) \<times> 'w"
  events_list :: "EventsListParams \<Rightarrow> 'w \<Rightarrow> (thrown + Schema_Events) \<times> 'w"
  events_instances :: "EventsInstancesParams \<Rightarrow> 'w \<Rightarrow> (thrown + Schema_Events) \<times> 'w"
  events_insert :: "EventsInsertParams \<Rightarrow> 'w \<Rightarrow> (thrown + obj) \<times> 'w"
  events_patch :: "EventsPatchParams \<Rightarrow> 'w \<Rightarrow> (thrown + obj) \<times> 'w"
  events_delete :: "EventsDeleteParams \<Rightarrow> 'w \<Rightarrow> (thrown + unit) \<times> 'w"

record 'w tasks_v1 =
  tasklists_list :: "TasklistsListParams \<Rightarrow> 'w \<Rightarrow> (thrown + Schema_TaskLists) \<times> 'w"
  tasks_list :: "TasksListParams \<Rightarrow> 'w \<Rightarrow> (thrown + Schema_Tasks) \<times> 'w"
  tasks_insert :: "TasksInsertParams \<Rightarrow> 'w \<Rightarrow> (thrown + obj) \<times> 'w"
  tasks_patch :: "TasksPatchParams \<Rightarrow> 'w \<Rightarrow> (thrown + obj) \<times> 'w"
  tasks_delete :: "TasksDeleteParams \<Rightarrow> 'w \<Rightarrow> (thrown + unit) \<times> 'w"

record 'w state =
  world :: 'w
  calls :: "(api_call \<times> thrown option) list"

type_synonym ('w, 'a) task = "'w state \<Rightarrow> (thrown + 'a) \<times> 'w state"

text \<open>\<^verbatim>\<open>await\<close> of one backend call: the call is made in the current world and logged.\<close>

definition await :: "api_call \<Rightarrow> ('w \<Rightarrow> (thrown + 'a) \<times> 'w) \<Rightarrow> ('w, 'a) task" where
  "await c m s =
     (case m (world s) of
        (r, w) \<Rightarrow>
          (r, \<lparr> world = w,
                calls = calls s @ [(c, case r of Inl e \<Rightarrow> Some e | Inr _ \<Rightarrow> None)] \<rparr>))"

text \<open>Sequencing: a throw skips the rest.\<close>

definition bind_task :: "('w, 'a) task \<Rightarrow> ('a \<Rightarrow> ('w, 'b) task) \<Rightarrow> ('w, 'b) task" where
  "bind_task m f s = (case m s of (Inl e, s') \<Rightarrow> (Inl e, s') | (Inr a, s') \<Rightarrow> f a s')"

definition return_task :: "'a \<Rightarrow> ('w, 'a) task" where
  "return_task a s = (Inr a, s)"

definition throw_task :: "thrown \<Rightarrow> ('w, 'a) task" where
  "throw_task e s = (Inl e, s)"

section \<open>The server and its handlers\<close>

text \<open>
  The two API clients of \<^verbatim>\<open>GoogleCalendarTodoMcpServer\<close>. \<^verbatim>\<open>initialize\<close> assigns both
  before it registers any tool.
\<close>

record 'w server =
  this_calendar :: "'w calendar_v3 option"
  this_tasks :: "'w tasks_v1 option"

definition initialize :: "'w calendar_v3 \<Rightarrow> 'w tasks_v1 \<Rightarrow> 'w server" where
  "initialize calendarClient tasksClient =
     \<lparr> this_calendar = Some calendarClient, this_tasks = Some tasksClient \<rparr>"

definition ensureCalendar :: "'w server \<Rightarrow> thrown + 'w calendar_v3" where
  "ensureCalendar this =
     (case this_calendar this of
        None \<Rightarrow> Inl (McpError InternalError ''Google Calendar client is not initialized'')
      | Some c \<Rightarrow> Inr c)"

definition ensureTasks :: "'w server \<Rightarrow> thrown + 'w tasks_v1" where
  "ensureTasks this =
     (case this_tasks this of
        None \<Rightarrow> Inl (McpError InternalError ''Google Tasks client is not initialized'')
      | Some t \<Rightarrow> Inr t)"

text \<open>
  \<^verbatim>\<open>function toJsonContent(data)\<close> returns one text item whose text is
  \<^verbatim>\<open>JSON.stringify(data, null, 2)\<close>; the item keeps the value that text renders.
\<close>

record TextContent =
  type' :: string
  text' :: json

record ToolResult =
  content :: "TextContent list"

definition toJsonContent :: "json \<Rightarrow> TextContent list" where
  "toJsonContent data = [\<lparr> type' = ''text'', text' = data \<rparr>]"

text \<open>\<^verbatim>\<open>x ?? null\<close> for \<open>x\<close> of type \<^verbatim>\<open>string | null | undefined\<close>.\<close>

definition or_null :: "string option \<Rightarrow> json" where
  "or_null x = (case x of None \<Rightarrow> JNull | Some t \<Rightarrow> JStr t)"

text \<open>
  An object literal some of whose values may be \<^verbatim>\<open>undefined\<close>: those properties are not
  part of the serialised object.
\<close>

definition object_literal :: "(string \<times> json option) list \<Rightarrow> json" where
  "object_literal kvs = JObj (List.map_filter (\<lambda>(k, v). map_option (Pair k) v) kvs)"

text \<open>\<^verbatim>\<open>function mapEvent(event: calendar_v3.Schema$Event)\<close>.\<close>

definition mapEvent :: "obj \<Rightarrow> json" where
  "mapEvent event =
     JObj
       [(''id'', nullish (get_prop event ''id'') JNull),
        (''status'', nullish (get_prop event ''status'') JNull),
        (''summary'', nullish (get_prop event ''summary'') JNull),
        (''description'', nullish (get_prop event ''description'') JNull),
        (''location'', nullish (get_prop event ''location'') JNull),
        (''start'', nullish (get_prop event ''start'') JNull),
        (''end'', nullish (get_prop event ''end'') JNull),
        (''recurrence'', nullish (get_prop event ''recurrence'') JNull),
        (''recurringEventId'', nullish (get_prop event ''recurringEventId'') JNull),
        (''originalStartTime'', nullish (get_prop event ''originalStartTime'') JNull),
        (''creator'', nullish (get_prop event ''creator'') JNull),
        (''organizer'', nullish (get_prop event ''organizer'') JNull),
        (''attendees'', nullish (get_prop event ''attendees'') JNull),
        (''htmlLink'', nullish (get_prop event ''htmlLink'') JNull),
        (''hangoutLink'', nullish (get_prop event ''hangoutLink'') JNull),
        (''conferenceData'', nullish (get_prop event ''conferenceData'') JNull),
        (''attachments'', nullish (get_prop event ''attachments'') JNull),
        (''transparency'', nullish (get_prop event ''transparency'') JNull),
        (''visibility'', nullish (get_prop event ''visibility'') JNull),
        (''colorId'', nullish (get_prop event ''colorId'') JNull),
        (''reminders'', nullish (get_prop event ''reminders'') JNull),
        (''updated'', nullish (get_prop event ''updated'') JNull),
        (''created'', nullish (get_prop event ''created'') JNull)]"

subsection \<open>list-calendars\<close>

text \<open>The public shape of a calendar list entry.\<close>

definition mapCalendarListEntry :: "obj \<Rightarrow> json" where
  "mapCalendarListEntry item =
     object_literal
       [(''id'', get_prop item ''id''),
        (''summary'', get_prop item ''summary''),
        (''description'', Some (nullish (get_prop item ''description'') JNull)),
        (''timeZone'', Some (nullish (get_prop item ''timeZone'') JNull)),
        (''primary'', Some (JBool (truthy_json (get_prop item ''primary'')))),
        (''accessRole'', Some (nullish (get_prop item ''accessRole'') JNull))]"

definition list_calendars :: "'w server \<Rightarrow> unit \<Rightarrow> ('w, ToolResult) task" where
  "list_calendars this input =
     (case ensureCalendar this of
        Inl e \<Rightarrow> throw_task e
      | Inr calendar \<Rightarrow>
          bind_task (await calendar_calendarList_list (calendarList_list calendar))
            (\<lambda>response.
               let calendars =
                     map mapCalendarListEntry
                       (case cl_items response of None \<Rightarrow> [] | Some xs \<Rightarrow> xs)
               in return_task
                    \<lparr> content = toJsonContent (JObj [(''calendars'', JArr calendars)]) \<rparr>))"

subsection \<open>list-events\<close>

definition list_events_params :: "ListEventsInput \<Rightarrow> EventsListParams" where
  "list_events_params input =
     \<lparr> el_calendarId = le_calendarId input,
       el_timeMin = le_timeMin input,
       el_timeMax = le_timeMax input,
       el_maxResults = le_maxResults input,
       el_q = le_query input,
       el_singleEvents = le_singleEvents input,
       el_orderBy = le_orderBy input,
       el_showDeleted = le_showDeleted input,
       el_timeZone = le_timeZone input,
       el_pageToken = le_pageToken input,
       el_syncToken = le_syncToken input,
       el_privateExtendedProperty = le_privateExtendedProperty input,
       el_sharedExtendedProperty = le_sharedExtendedProperty input \<rparr>"

definition list_events :: "'w server \<Rightarrow> ListEventsInput \<Rightarrow> ('w, ToolResult) task" where
  "list_events this input =
     (case ensureCalendar this of
        Inl e \<Rightarrow> throw_task e
      | Inr calendar \<Rightarrow>
          bind_task (await (calendar_events_list (list_events_params input))
                           (events_list calendar (list_events_params input)))
            (\<lambda>response.
               let events = map mapEvent (case items response of None \<Rightarrow> [] | Some xs \<Rightarrow> xs)
               in return_task
                    \<lparr> content = toJsonContent (JObj
                        [(''events'', JArr events),
                         (''nextPageToken'', or_null (nextPageToken response)),
                         (''nextSyncToken'', or_null (nextSyncToken response))]) \<rparr>))"

subsection \<open>search-events\<close>

record SearchResultEntry =
  sr_calendarId :: string
  sr_events :: "json list"
  sr_nextPageToken :: json

definition search_params :: "SearchEventsInput \<Rightarrow> string \<Rightarrow> EventsListParams" where
  "search_params input calendarId =
     \<lparr> el_calendarId = calendarId,
       el_timeMin = se_timeMin input,
       el_timeMax = se_timeMax input,
       el_maxResults = se_maxResultsPerCalendar input,
       el_q = Some (se_query input),
       el_singleEvents = se_singleEvents input,
       el_orderBy = se_orderBy input,
       el_showDeleted = se_showDeleted input,
       el_timeZone = se_timeZone input,
       el_pageToken = None,
       el_syncToken = None,
       el_privateExtendedProperty = se_privateExtendedProperty input,
       el_sharedExtendedProperty = se_sharedExtendedProperty input \<rparr>"

text \<open>
  \<^verbatim>\<open>for (const calendarId of input.calendarIds) { ... results.push(...) }\<close>: the loop over the
  identifiers still to visit, with the results pushed so far.
\<close>

fun search_loop ::
  "'w calendar_v3 \<Rightarrow> SearchEventsInput \<Rightarrow> string list \<Rightarrow> SearchResultEntry list \<Rightarrow>
     ('w, SearchResultEntry list) task" where
  "search_loop calendar input [] results s = (Inr results, s)"
| "search_loop calendar input (calendarId # rest) results s =
     (case await (calendar_events_list (search_params input calendarId))
                 (events_list calendar (search_params input calendarId)) s of
        (Inl e, s') \<Rightarrow> (Inl e, s')
      | (Inr response, s') \<Rightarrow>
          search_loop calendar input rest
            (results @
              [\<lparr> sr_calendarId = calendarId,
                 sr_events = map mapEvent (case items response of None \<Rightarrow> [] | Some xs \<Rightarrow> xs),
                 sr_nextPageToken = or_null (nextPageToken response) \<rparr>])
            s')"

definition entry_json :: "SearchResultEntry \<Rightarrow> json" where
  "entry_json entry =
     JObj [(''calendarId'', JStr (sr_calendarId entry)),
           (''events'', JArr (sr_events entry)),
           (''nextPageToken'', sr_nextPageToken entry)]"

definition search_events :: "'w server \<Rightarrow> SearchEventsInput \<Rightarrow> ('w, ToolResult) task" where
  "search_events this input =
     (case ensureCalendar this of
        Inl e \<Rightarrow> throw_task e
      | Inr calendar \<Rightarrow>
          bind_task (search_loop calendar input (se_calendarIds input) [])
            (\<lambda>results.
               let totalEvents = foldl (\<lambda>sum entry. sum + length (sr_events entry)) 0 results
               in return_task
                    \<lparr> content = toJsonContent (JObj
                        [(''query'', JStr (se_query input)),
                         (''totalEvents'', JNum (of_nat totalEvents)),
                         (''calendars'', JArr (map entry_json results))]) \<rparr>))"

subsection \<open>create-event, update-event, update-event-instance\<close>

text \<open>\<^verbatim>\<open>Array.isArray(input.attachments) && input.attachments.length > 0\<close>.\<close>

definition hasAttachments :: "'a CommonEventFields_scheme \<Rightarrow> bool" where
  "hasAttachments input = (case attachments input of None \<Rightarrow> False | Some as \<Rightarrow> length as > 0)"

text \<open>The argument of \<^verbatim>\<open>calendar.events.insert\<close> in the \<^verbatim>\<open>create-event\<close> handler.\<close>

definition create_event_params :: "CreateEventInput \<Rightarrow> EventsInsertParams" where
  "create_event_params input =
     \<lparr> ei_calendarId = ce_calendarId input,
       ei_requestBody = create_event_requestBody input,
       ei_sendUpdates = ce_sendUpdates input,
       ei_supportsAttachments = (if hasAttachments input then Some True else None),
       ei_conferenceDataVersion = (if truthy_json (conferenceData input) then Some 1 else None) \<rparr>"

definition create_event :: "'w server \<Rightarrow> CreateEventInput \<Rightarrow> ('w, ToolResult) task" where
  "create_event this input =
     (case ensureCalendar this of
        Inl e \<Rightarrow> throw_task e
      | Inr calendar \<Rightarrow>
          bind_task (await (calendar_events_insert (create_event_params input))
                           (events_insert calendar (create_event_params input)))
            (\<lambda>created.
               return_task \<lparr> content = toJsonContent (JObj [(''event'', JObj created)]) \<rparr>))"

text \<open>The argument of \<^verbatim>\<open>calendar.events.patch\<close> in the \<^verbatim>\<open>update-event\<close> handler.\<close>

definition update_event_params :: "UpdateEventInput \<Rightarrow> EventsPatchParams" where
  "update_event_params input =
     \<lparr> ep_calendarId = ue_calendarId input,
       ep_eventId = ue_eventId input,
       ep_requestBody = update_event_requestBody input,
       ep_sendUpdates = ue_sendUpdates input,
       ep_supportsAttachments = (if hasAttachments input then Some True else None),
       ep_conferenceDataVersion = (if truthy_json (conferenceData input) then Some 1 else None) \<rparr>"

definition update_event :: "'w server \<Rightarrow> UpdateEventInput \<Rightarrow> ('w, ToolResult) task" where
  "update_event this input =
     (case ensureCalendar this of
        Inl e \<Rightarrow> throw_task e
      | Inr calendar \<Rightarrow>
          bind_task (await (calendar_events_patch (update_event_params input))
                           (events_patch calendar (update_event_params input)))
            (\<lambda>updated.
               return_task \<lparr> content = toJsonContent (JObj [(''event'', JObj updated)]) \<rparr>))"

text \<open>The argument of \<^verbatim>\<open>calendar.events.patch\<close> in the \<^verbatim>\<open>update-event-instance\<close> handler.\<close>

definition update_event_instance_params :: "UpdateEventInstanceInput \<Rightarrow> EventsPatchParams" where
  "update_event_instance_params input =
     \<lparr> ep_calendarId = ui_calendarId input,
       ep_eventId = ui_instanceId input,
       ep_requestBody = update_event_instance_requestBody input,
       ep_sendUpdates = ui_sendUpdates input,
       ep_supportsAttachments = (if hasAttachments input then Some True else None),
       ep_conferenceDataVersion = (if truthy_json (conferenceData input) then Some 1 else None) \<rparr>"

definition update_event_instance ::
  "'w server \<Rightarrow> UpdateEventInstanceInput \<Rightarrow> ('w, ToolResult) task" where
  "update_event_instance this input =
     (case ensureCalendar this of
        Inl e \<Rightarrow> throw_task e
      | Inr calendar \<Rightarrow>
          bind_task (await (calendar_events_patch (update_event_instance_params input))
                           (events_patch calendar (update_event_instance_params input)))
            (\<lambda>updated.
               return_task \<lparr> content = toJsonContent (JObj [(''event'', JObj updated)]) \<rparr>))"

subsection \<open>list-event-instances, delete-event, delete-event-instance\<close>

definition list_event_instances_params :: "ListEventInstancesInput \<Rightarrow> EventsInstancesParams" where
  "list_event_instances_params input =
     \<lparr> en_calendarId = li_calendarId input,
       en_eventId = li_recurringEventId input,
       en_timeMin = li_timeMin input,
       en_timeMax = li_timeMax input,
       en_maxResults = li_maxResults input,
       en_pageToken = li_pageToken input,
       en_showDeleted = li_showDeleted input,
       en_timeZone = li_timeZone input \<rparr>"

definition list_event_instances ::
  "'w server \<Rightarrow> ListEventInstancesInput \<Rightarrow> ('w, ToolResult) task" where
  "list_event_instances this input =
     (case ensureCalendar this of
        Inl e \<Rightarrow> throw_task e
      | Inr calendar \<Rightarrow>
          bind_task (await (calendar_events_instances (list_event_instances_params input))
                           (events_instances calendar (list_event_instances_params input)))
            (\<lambda>response.
               let instances = map mapEvent (case items response of None \<Rightarrow> [] | Some xs \<Rightarrow> xs)
               in return_task
                    \<lparr> content = toJsonContent (JObj
                        [(''instances'', JArr instances),
                         (''nextPageToken'', or_null (nextPageToken response))]) \<rparr>))"

definition delete_event :: "'w server \<Rightarrow> DeleteEventInput \<Rightarrow> ('w, ToolResult) task" where
  "delete_event this input =
     (case ensureCalendar this of
        Inl e \<Rightarrow> throw_task e
      | Inr calendar \<Rightarrow>
          (let params =
                 \<lparr> ed_calendarId = de_calendarId input,
                   ed_eventId = de_eventId input,
                   ed_sendUpdates = de_sendUpdates input \<rparr>
           in bind_task (await (calendar_events_delete params) (events_delete calendar params))
                (\<lambda>_. return_task
                       \<lparr> content = toJsonContent (JObj [(''success'', JBool True)]) \<rparr>)))"

definition delete_event_instance ::
  "'w server \<Rightarrow> DeleteEventInstanceInput \<Rightarrow> ('w, ToolResult) task" where
  "delete_event_instance this input =
     (case ensureCalendar this of
        Inl e \<Rightarrow> throw_task e
      | Inr calendar \<Rightarrow>
          (let params =
                 \<lparr> ed_calendarId = di_calendarId input,
                   ed_eventId = di_instanceId input,
                   ed_sendUpdates = di_sendUpdates input \<rparr>
           in bind_task (await (calendar_events_delete params) (events_delete calendar params))
                (\<lambda>_. return_task
                       \<lparr> content = toJsonContent (JObj [(''success'', JBool True)]) \<rparr>)))"

subsection \<open>The task tools\<close>

text \<open>The public shape of a task list: \<^verbatim>\<open>{ id: item.id, title: item.title, updated: item.updated }\<close>.\<close>

definition mapTaskList :: "obj \<Rightarrow> json" where
  "mapTaskList item =
     object_literal
       [(''id'', get_prop item ''id''),
        (''title'', get_prop item ''title''),
        (''updated'', get_prop item ''updated'')]"

definition list_tasklists :: "'w server \<Rightarrow> unit \<Rightarrow> ('w, ToolResult) task" where
  "list_tasklists this input =
     (case ensureTasks this of
        Inl e \<Rightarrow> throw_task e
      | Inr tasks \<Rightarrow>
          bind_task (await (tasks_tasklists_list \<lparr> tl_maxResults = 100 \<rparr>)
                           (tasklists_list tasks \<lparr> tl_maxResults = 100 \<rparr>))
            (\<lambda>response.
               let tasklists =
                     map mapTaskList (case tl_items response of None \<Rightarrow> [] | Some xs \<Rightarrow> xs)
               in return_task
                    \<lparr> content = toJsonContent (JObj
                        [(''tasklists'', JArr tasklists),
                         (''nextPageToken'', or_null (tl_nextPageToken response))]) \<rparr>))"

text \<open>The public shape of a task.\<close>

definition mapTask :: "obj \<Rightarrow> json" where
  "mapTask task =
     object_literal
       [(''id'', get_prop task ''id''),
        (''title'', get_prop task ''title''),
        (''notes'', Some (nullish (get_prop task ''notes'') JNull)),
        (''status'', get_prop task ''status''),
        (''due'', Some (nullish (get_prop task ''due'') JNull)),
        (''completed'', Some (nullish (get_prop task ''completed'') JNull)),
        (''updated'', get_prop task ''updated'')]"

definition list_tasks :: "'w server \<Rightarrow> ListTasksInput \<Rightarrow> ('w, ToolResult) task" where
  "list_tasks this input =
     (case ensureTasks this of
        Inl e \<Rightarrow> throw_task e
      | Inr tasks \<Rightarrow>
          (let params =
                 \<lparr> ls_tasklist = lt_tasklistId input,
                   ls_showCompleted = lt_showCompleted input,
                   ls_showDeleted = lt_showDeleted input,
                   ls_maxResults = lt_maxResults input,
                   ls_dueMin = lt_dueMin input,
                   ls_dueMax = lt_dueMax input \<rparr>
           in bind_task (await (tasks_tasks_list params) (tasks_list tasks params))
                (\<lambda>response.
                   let taskItems =
                         map mapTask (case ls_items response of None \<Rightarrow> [] | Some xs \<Rightarrow> xs)
                   in return_task
                        \<lparr> content = toJsonContent (JObj
                            [(''tasks'', JArr taskItems),
                             (''nextPageToken'', or_null (ls_nextPageToken response))]) \<rparr>)))"

definition empty_task :: Schema_Task where
  "empty_task =
     \<lparr> tk_title = None, tk_notes = None, tk_due = None, tk_status = None,
       tk_completed = None \<rparr>"

definition create_task :: "'w server \<Rightarrow> CreateTaskInput \<Rightarrow> ('w, ToolResult) task" where
  "create_task this input =
     (case ensureTasks this of
        Inl e \<Rightarrow> throw_task e
      | Inr tasks \<Rightarrow>
          (let params =
                 \<lparr> ti_tasklist = nt_tasklistId input,
                   ti_requestBody =
                     empty_task\<lparr> tk_title := Some (nt_title input),
                                 tk_notes := nt_notes input,
                                 tk_due := nt_due input \<rparr> \<rparr>
           in bind_task (await (tasks_tasks_insert params) (tasks_insert tasks params))
                (\<lambda>created.
                   return_task \<lparr> content = toJsonContent (JObj [(''task'', JObj created)]) \<rparr>)))"

definition delete_task :: "'w server \<Rightarrow> DeleteTaskInput \<Rightarrow> ('w, ToolResult) task" where
  "delete_task this input =
     (case ensureTasks this of
        Inl e \<Rightarrow> throw_task e
      | Inr tasks \<Rightarrow>
          (let params = \<lparr> td_tasklist = dt_tasklistId input, td_task = dt_taskId input \<rparr>
           in bind_task (await (tasks_tasks_delete params) (tasks_delete tasks params))
                (\<lambda>_. return_task
                       \<lparr> content = toJsonContent (JObj [(''success'', JBool True)]) \<rparr>)))"

text \<open>
  The request body of the \<^verbatim>\<open>update-task\<close> handler; \<open>now\<close> is what
  \<^verbatim>\<open>new Date().toISOString()\<close> returns when the handler runs.
\<close>

definition update_task_requestBody :: "string \<Rightarrow> UpdateTaskInput \<Rightarrow> Schema_Task" where
  "update_task_requestBody now input =
     (let requestBody = empty_task
      in requestBody\<lparr>
           tk_title := (if ut_title input \<noteq> None then ut_title input
                        else tk_title requestBody),
           tk_notes := (if ut_notes input \<noteq> None then ut_notes input
                        else tk_notes requestBody),
           tk_due := (if ut_due input \<noteq> None then ut_due input else tk_due requestBody),
           tk_status := (if ut_status input \<noteq> None then ut_status input
                         else tk_status requestBody),
           tk_completed := (if ut_status input \<noteq> None \<and> ut_status input = Some task_completed
                            then Some now else tk_completed requestBody) \<rparr>)"

text \<open>
  The arguments of \<^verbatim>\<open>tasks.tasks.patch\<close> in the \<^verbatim>\<open>update-task\<close> and \<^verbatim>\<open>complete-task\<close>
  handlers.
\<close>

definition update_task_params :: "string \<Rightarrow> UpdateTaskInput \<Rightarrow> TasksPatchParams" where
  "update_task_params now input =
     \<lparr> tp_tasklist = ut_tasklistId input,
       tp_task = ut_taskId input,
       tp_requestBody = update_task_requestBody now input \<rparr>"

definition complete_task_params :: "string \<Rightarrow> CompleteTaskInput \<Rightarrow> TasksPatchParams" where
  "complete_task_params completedAt input =
     \<lparr> tp_tasklist = ct_tasklistId input,
       tp_task = ct_taskId input,
       tp_requestBody =
         empty_task\<lparr> tk_status := Some task_completed, tk_completed := Some completedAt \<rparr> \<rparr>"

text \<open>The clock \<open>toISOString\<close> reads \<^verbatim>\<open>new Date().toISOString()\<close> off the current world.\<close>

definition update_task ::
  "('w \<Rightarrow> string) \<Rightarrow> 'w server \<Rightarrow> UpdateTaskInput \<Rightarrow> ('w, ToolResult) task" where
  "update_task toISOString this input s =
     (case ensureTasks this of
        Inl e \<Rightarrow> throw_task e s
      | Inr tasks \<Rightarrow>
          (let params = update_task_params (toISOString (world s)) input
           in bind_task (await (tasks_tasks_patch params) (tasks_patch tasks params))
                (\<lambda>updated.
                   return_task \<lparr> content = toJsonContent (JObj [(''task'', JObj updated)]) \<rparr>)
                s))"

definition complete_task ::
  "('w \<Rightarrow> string) \<Rightarrow> 'w server \<Rightarrow> CompleteTaskInput \<Rightarrow> ('w, ToolResult) task" where
  "complete_task toISOString this input s =
     (case ensureTasks this of
        Inl e \<Rightarrow> throw_task e s
      | Inr tasks \<Rightarrow>
          (let completedAt = toISOString (world s);
               params = complete_task_params completedAt input
           in bind_task (await (tasks_tasks_patch params) (tasks_patch tasks params))
                (\<lambda>updated.
                   return_task \<lparr> content = toJsonContent (JObj [(''task'', JObj updated)]) \<rparr>)
                s))"

section \<open>Registration\<close>

text \<open>
  \<^verbatim>\<open>private registerTool(name, description, schema, executor)\<close> registers the callback
  \<^verbatim>\<open>async (args: unknown) => { try { ... } catch (error) { ... } }\<close>; the definition is that
  callback. \<open>try_block\<close> is the body of the \<^verbatim>\<open>try\<close>: \<^verbatim>\<open>schema.parse\<close> throws a
  \<^verbatim>\<open>ZodError\<close> with the issues found.
\<close>

definition try_block ::
  "'i ZodType \<Rightarrow> ('i \<Rightarrow> ('w, ToolResult) task) \<Rightarrow> json option \<Rightarrow> ('w, ToolResult) task" where
  "try_block schema executor args =
     (case schema (Some (nullish args (JObj []))) of
        Inl issues \<Rightarrow> throw_task (ZodError issues)
      | Inr parsed \<Rightarrow> executor parsed)"

fun catch_clause :: "thrown \<Rightarrow> thrown" where
  "catch_clause (McpError c m) = McpError c m"
| "catch_clause (ZodError issues) = McpError InvalidParams (join ''; '' (map message issues))"
| "catch_clause (ErrorWithMessage m) = McpError InternalError m"
| "catch_clause OtherThrown = McpError InternalError ''Unexpected error executing tool''"

definition registerTool ::
  "'i ZodType \<Rightarrow> ('i \<Rightarrow> ('w, ToolResult) task) \<Rightarrow> json option \<Rightarrow> ('w, ToolResult) task" where
  "registerTool schema executor args s =
     (case try_block schema executor args s of
        (Inl error, s') \<Rightarrow> (Inl (catch_clause error), s')
      | (Inr result, s') \<Rightarrow> (Inr result, s'))"

text \<open>
  The fifteen tools, as \<^verbatim>\<open>registerCalendarTools\<close> and \<^verbatim>\<open>registerTaskTools\<close> register them:
  the name of each tool with the callback \<^verbatim>\<open>registerTool\<close> builds from the tool's schema and
  handler. The description and \<^verbatim>\<open>inputSchema: schema.shape\<close>, which \<^verbatim>\<open>registerTool\<close> passes to
  the protocol library with the callback, are for that library's own use and are left out;
  what the library does before it calls a callback is not part of the server's code.
\<close>

definition registerCalendarTools ::
  "zod \<Rightarrow> 'w server \<Rightarrow> (string \<times> (json option \<Rightarrow> ('w, ToolResult) task)) list" where
  "registerCalendarTools Z this =
     [(''list-calendars'', registerTool (emptyObjectInput Z) (list_calendars this)),
      (''list-events'', registerTool (listEventsInput Z) (list_events this)),
      (''search-events'', registerTool (searchEventsInput Z) (search_events this)),
      (''create-event'', registerTool (createEventInput Z) (create_event this)),
      (''update-event'', registerTool (updateEventInput Z) (update_event this)),
      (''list-event-instances'',
         registerTool (listEventInstancesInput Z) (list_event_instances this)),
      (''update-event-instance'',
         registerTool (updateEventInstanceInput Z) (update_event_instance this)),
      (''delete-event'', registerTool (deleteEventInput Z) (delete_event this)),
      (''delete-event-instance'',
         registerTool (deleteEventInstanceInput Z) (delete_event_instance this))]"

definition registerTaskTools ::
  "zod \<Rightarrow> ('w \<Rightarrow> string) \<Rightarrow> 'w server \<Rightarrow>
     (string \<times> (json option \<Rightarrow> ('w, ToolResult) task)) list" where
  "registerTaskTools Z toISOString this =
     [(''list-tasklists'', registerTool (emptyObjectInput Z) (list_tasklists this)),
      (''list-tasks'', registerTool (listTasksInput Z) (list_tasks this)),
      (''create-task'', registerTool (createTaskInput Z) (create_task this)),
      (''update-task'', registerTool (updateTaskInput Z) (update_task toISOString this)),
      (''complete-task'', registerTool (completeTaskInput Z) (complete_task toISOString this)),
      (''delete-task'', registerTool (deleteTaskInput Z) (delete_task this))]"

section \<open>Notions of the specification\<close>

text \<open>
  ``Matches exactly \<^verbatim>\<open>YYYY-MM-DD\<close>'': ten characters, digits except for a hyphen in the
  fifth and the eighth place.
\<close>

definition is_digit_at :: "string \<Rightarrow> nat \<Rightarrow> bool" where
  "is_digit_at v i = (v ! i \<in> set ''0123456789'')"

definition is_YYYY_MM_DD :: "string \<Rightarrow> bool" where
  "is_YYYY_MM_DD v =
     (length v = 10 \<and> is_digit_at v 0 \<and> is_digit_at v 1 \<and> is_digit_at v 2 \<and>
      is_digit_at v 3 \<and> v ! 4 = CHR ''-'' \<and> is_digit_at v 5 \<and> is_digit_at v 6 \<and>
      v ! 7 = CHR ''-'' \<and> is_digit_at v 8 \<and> is_digit_at v 9)"

text \<open>A mapping of extended properties ``has at least one key''.\<close>

definition has_keys :: "(string \<times> string) list option \<Rightarrow> bool" where
  "has_keys m = (case m of None \<Rightarrow> False | Some kvs \<Rightarrow> kvs \<noteq> [])"

text \<open>The issues a schema finds in a raw value; none when the value is valid.\<close>

definition issues_of :: "'a parsed \<Rightarrow> ZodIssue list" where
  "issues_of r = (case r of Inl is \<Rightarrow> is | Inr _ \<Rightarrow> [])"

text \<open>None of the common event fields is supplied.\<close>

definition no_common_fields :: "'a CommonEventFields_scheme \<Rightarrow> bool" where
  "no_common_fields input =
     (description input = None \<and> location input = None \<and> colorId input = None \<and>
      recurrence input = None \<and> transparency input = None \<and> visibility input = None \<and>
      attendees input = None \<and> reminders input = None \<and> conferenceData input = None \<and>
      extendedProperties input = None \<and> guestsCanInviteOthers input = None \<and>
      guestsCanModify input = None \<and> guestsCanSeeOtherGuests input = None \<and>
      anyoneCanAddSelf input = None \<and> attachments input = None \<and> source input = None)"

text \<open>The properties of a JSON object; a value that is not an object has none.\<close>

fun properties :: "json \<Rightarrow> obj" where
  "properties (JObj kvs) = kvs"
| "properties _ = []"

text \<open>
  ``One backend list call for each parameter record, one after the other'': each call is
  made in the world the call before it has left, and the first call that throws is the last
  one made. The outcome is the pages of the calls that returned, in the order of the calls,
  the value thrown if a call threw, and the world after the last call made.
\<close>

fun list_in_order ::
  "'w calendar_v3 \<Rightarrow> EventsListParams list \<Rightarrow> 'w \<Rightarrow>
     Schema_Events list \<times> thrown option \<times> 'w" where
  "list_in_order C [] w = ([], None, w)"
| "list_in_order C (p # ps) w =
     (case events_list C p w of
        (Inl e, w') \<Rightarrow> ([], Some e, w')
      | (Inr page, w') \<Rightarrow>
          (case list_in_order C ps w' of
             (pages, thrown, w'') \<Rightarrow> (page # pages, thrown, w'')))"

section \<open>Example collaborators\<close>

text \<open>
  A validation library, two backends, a clock and a state to run the tools on concrete
  arguments. The world counts the backend calls made. Listing the calendar \<^verbatim>\<open>b\<close> fails,
  and so does listing task lists with a page size below one; every other call succeeds.
\<close>

fun example_errorMap :: "ZodIssueCode \<Rightarrow> string" where
  "example_errorMap (invalid_type expected received) =
     ''Expected '' @ expected @ '', received '' @ received"
| "example_errorMap (too_small _ _) = ''Value is below the minimum''"
| "example_errorMap (too_big _ _) = ''Value is above the maximum''"
| "example_errorMap _ = ''Invalid input''"

definition example_zod :: zod where
  "example_zod =
     \<lparr> errorMap = example_errorMap,
       isEmail = (\<lambda>s. CHR ''@'' \<in> set s),
       isURL = (\<lambda>s. CHR '':'' \<in> set s) \<rparr>"

definition example_entity :: obj where
  "example_entity = [(''id'', JStr ''abc123''), (''summary'', JStr ''Standup'')]"

definition example_calendar :: "nat calendar_v3" where
  "example_calendar =
     \<lparr> calendarList_list = (\<lambda>w. (Inr \<lparr> cl_items = None \<rparr>, Suc w)),
       events_list = (\<lambda>p w.
         (if el_calendarId p = ''b'' then Inl (ErrorWithMessage ''Not Found'')
          else Inr \<lparr> items = Some [example_entity], nextPageToken = None,
                     nextSyncToken = None \<rparr>,
          Suc w)),
       events_instances = (\<lambda>p w.
         (Inr \<lparr> items = None, nextPageToken = None, nextSyncToken = None \<rparr>, Suc w)),
       events_insert = (\<lambda>p w. (Inr example_entity, Suc w)),
       events_patch = (\<lambda>p w. (Inr example_entity, Suc w)),
       events_delete = (\<lambda>p w. (Inr (), Suc w)) \<rparr>"

definition example_tasks :: "nat tasks_v1" where
  "example_tasks =
     \<lparr> tasklists_list = (\<lambda>p w.
         (if 1 \<le> tl_maxResults p
          then Inr \<lparr> tl_items = Some [[(''id'', JStr ''l1''), (''title'', JStr ''Home'')]],
                     tl_nextPageToken = None \<rparr>
          else Inl (ErrorWithMessage ''Invalid Value''),
          Suc w)),
       tasks_list = (\<lambda>p w. (Inr \<lparr> ls_items = None, ls_nextPageToken = None \<rparr>, Suc w)),
       tasks_insert = (\<lambda>p w. (Inr [(''id'', JStr ''t1'')], Suc w)),
       tasks_patch = (\<lambda>p w. (Inr [(''id'', JStr ''t1'')], Suc w)),
       tasks_delete = (\<lambda>p w. (Inr (), Suc w)) \<rparr>"

definition example_clock :: "nat \<Rightarrow> string" where
  "example_clock w = (if w = 0 then ''2024-01-10T17:00:00.000Z'' else ''2024-01-10T17:00:01.000Z'')"

definition example_server :: "nat server" where
  "example_server = initialize example_calendar example_tasks"

definition example_state :: "nat state" where
  "example_state = \<lparr> world = 0, calls = [] \<rparr>"

text \<open>The scenario of creating the event \<^verbatim>\<open>Standup\<close>.\<close>

definition example_create_args :: json where
  "example_create_args =
     JObj [(''calendarId'', JStr ''primary''), (''summary'', JStr ''Standup''),
           (''start'', JStr ''2024-01-10T09:00:00-08:00''),
           (''end'', JStr ''2024-01-10T09:30:00-08:00'')]"

definition example_create_input :: CreateEventInput where
  "example_create_input =
     \<lparr> description = None, location = None, colorId = None, recurrence = None,
       transparency = None, visibility = None, attendees = None, reminders = None,
       conferenceData = None, extendedProperties = None, guestsCanInviteOthers = None,
       guestsCanModify = None, guestsCanSeeOtherGuests = None, anyoneCanAddSelf = None,
       attachments = None, source = None,
       ce_calendarId = ''primary'', ce_summary = ''Standup'',
       ce_start = ''2024-01-10T09:00:00-08:00'', ce_end = ''2024-01-10T09:30:00-08:00'',
       ce_timeZone = None, ce_eventId = None, ce_sendUpdates = None \<rparr>"

text \<open>An update of the event \<^verbatim>\<open>e1\<close> that supplies nothing but an empty reminders object.\<close>

definition example_update_input :: UpdateEventInput where
  "example_update_input =
     \<lparr> description = None, location = None, colorId = None, recurrence = None,
       transparency = None, visibility = None, attendees = None,
       reminders = Some \<lparr> useDefault = None, overrides = None \<rparr>,
       conferenceData = None, extendedProperties = None, guestsCanInviteOthers = None,
       guestsCanModify = None, guestsCanSeeOtherGuests = None, anyoneCanAddSelf = None,
       attachments = None, source = None,
       ue_calendarId = ''primary'', ue_eventId = ''e1'', ue_summary = None, ue_start = None,
       ue_end = None, ue_timeZone = None, ue_sendUpdates = None \<rparr>"

text \<open>The scenario of searching the calendars \<^verbatim>\<open>a\<close> and \<^verbatim>\<open>b\<close>.\<close>

definition example_search_args :: json where
  "example_search_args =
     JObj [(''calendarIds'', JArr [JStr ''a'', JStr ''b'']), (''query'', JStr ''standup'')]"

definition example_search_input :: SearchEventsInput where
  "example_search_input =
     \<lparr> se_calendarIds = [''a'', ''b''], se_query = ''standup'', se_timeMin = None,
       se_timeMax = None, se_maxResultsPerCalendar = None, se_timeZone = None,
       se_orderBy = None, se_showDeleted = None, se_singleEvents = None,
       se_privateExtendedProperty = None, se_sharedExtendedProperty = None \<rparr>"

text \<open>
  The scenario of searching the calendars \<^verbatim>\<open>x\<close>, \<^verbatim>\<open>y\<close> and \<^verbatim>\<open>z\<close> for \<^verbatim>\<open>standup\<close>, with a
  backend whose pages differ from calendar to calendar.
\<close>

definition example_search_calendar :: "nat calendar_v3" where
  "example_search_calendar =
     example_calendar\<lparr> events_list := (\<lambda>p w.
       (if el_calendarId p = ''x''
        then Inr \<lparr> items = Some [[(''id'', JStr ''x1'')], [(''id'', JStr ''x2'')]],
                   nextPageToken = Some ''more'', nextSyncToken = None \<rparr>
        else if el_calendarId p = ''y''
        then Inr \<lparr> items = None, nextPageToken = None, nextSyncToken = None \<rparr>
        else Inr \<lparr> items = Some [[(''id'', JStr ''z1'')]],
                   nextPageToken = None, nextSyncToken = None \<rparr>,
        Suc w)) \<rparr>"

definition example_search_xyz_args :: json where
  "example_search_xyz_args =
     JObj [(''calendarIds'', JArr [JStr ''x'', JStr ''y'', JStr ''z'']),
           (''query'', JStr ''standup'')]"

definition example_search_xyz_input :: SearchEventsInput where
  "example_search_xyz_input = example_search_input\<lparr> se_calendarIds := [''x'', ''y'', ''z''] \<rparr>"


section \<open>Auxiliary facts\<close>

lemmas schema_defs =
  z_object_def field_def get_prop_def ap_def z_default_def z_string_def z_optional_def
  z_boolean_def z_number_def z_enum_def z_array_def z_check_def z_custom_def z_record_def
  z_email_def z_url_def z_orderBy_def z_sendUpdates_def isInteger_def issue_def
  List.map_filter_simps

lemmas event_schema_defs =
  commonEventFields_shape_def conferenceDataSchema_def extendedPropertiesSchema_def
  attachmentsSchema_def sourceSchema_def remindersSchema_def reminderOverrideSchema_def
  attendeeSchema_def CommonEventFields.extend_def CreateEventInput.fields_def
  UpdateEventInput.fields_def UpdateEventInstanceInput.fields_def

lemmas body_defs =
  create_event_requestBody_def update_event_requestBody_def
  update_event_instance_requestBody_def applyCommonEventFields_def empty_event_def Let_def

lemma length_10_cases:
  "length v = 10 \<Longrightarrow> \<exists>a b c d e f g h i j. v = [a, b, c, d, e, f, g, h, i, j]"
  by (auto simp: length_Suc_conv eval_nat_numeral)

lemma re_test_length: "re_test as v \<Longrightarrow> length v = length as"
  by (induction as v rule: re_test.induct) auto

lemma DATE_ONLY_REGEX_iff: "re_test DATE_ONLY_REGEX v = is_YYYY_MM_DD v"
proof (cases "length v = 10")
  case True
  then obtain a b c d e f g h i j where "v = [a, b, c, d, e, f, g, h, i, j]"
    using length_10_cases [OF True] by (elim exE) (rule that)
  then show ?thesis
    by (simp add: DATE_ONLY_REGEX_def is_YYYY_MM_DD_def is_digit_at_def)
next
  case False
  then have "\<not> re_test DATE_ONLY_REGEX v"
    using re_test_length [of DATE_ONLY_REGEX v] by (auto simp: DATE_ONLY_REGEX_def)
  with False show ?thesis by (simp add: is_YYYY_MM_DD_def)
qed

lemma truthy_iff: "truthy tz = (\<not> (tz = None \<or> tz = Some []))"
  by (cases tz) auto

lemma mapReminders_Some:
  "mapReminders (Some r) =
     (if useDefault r = None \<and> (overrides r = None \<or> overrides r = Some []) then None
      else Some \<lparr> g_useDefault = useDefault r,
                  g_overrides =
                    (if overrides r = None \<or> overrides r = Some [] then None
                     else map_option (map (\<lambda>override.
                            \<lparr> g_method = (case method' override of None \<Rightarrow> popup | Some m \<Rightarrow> m),
                              g_minutes = minutes override \<rparr>)) (overrides r)) \<rparr>)"
  by (cases "overrides r"; cases "useDefault r")
     (auto simp: mapReminders_def Reminders_keys_def Let_def)

lemma mapExtendedProperties_Some:
  "mapExtendedProperties (Some ep) =
     (if \<not> has_keys (private' ep) \<and> \<not> has_keys (shared ep) then None
      else Some \<lparr> g_private = (if has_keys (private' ep) then private' ep else None),
                  g_shared = (if has_keys (shared ep) then shared ep else None) \<rparr>)"
  by (cases "private' ep"; cases "shared ep")
     (auto simp: mapExtendedProperties_def has_keys_def Let_def)

lemma ev_reminders_bodies:
  "ev_reminders (create_event_requestBody ci) = mapReminders (reminders ci)"
  "ev_reminders (update_event_requestBody ui) = mapReminders (reminders ui)"
  "ev_reminders (update_event_instance_requestBody ii) = mapReminders (reminders ii)"
  by (simp_all add: body_defs mapReminders_def)

lemma ev_extendedProperties_bodies:
  "ev_extendedProperties (create_event_requestBody ci) =
     mapExtendedProperties (extendedProperties ci)"
  "ev_extendedProperties (update_event_requestBody ui) =
     mapExtendedProperties (extendedProperties ui)"
  "ev_extendedProperties (update_event_instance_requestBody ii) =
     mapExtendedProperties (extendedProperties ii)"
  by (simp_all add: body_defs mapExtendedProperties_def)

lemma ev_start_end_bodies:
  "ev_start (create_event_requestBody ci) =
     Some (toGoogleDate (ce_start ci) (ce_timeZone ci))"
  "ev_end (create_event_requestBody ci) = Some (toGoogleDate (ce_end ci) (ce_timeZone ci))"
  "ev_start (update_event_requestBody ui) =
     map_option (\<lambda>x. toGoogleDate x (ue_timeZone ui)) (ue_start ui)"
  "ev_end (update_event_requestBody ui) =
     map_option (\<lambda>x. toGoogleDate x (ue_timeZone ui)) (ue_end ui)"
  "ev_start (update_event_instance_requestBody ii) =
     map_option (\<lambda>x. toGoogleDate x (ui_timeZone ii)) (ui_start ii)"
  "ev_end (update_event_instance_requestBody ii) =
     map_option (\<lambda>x. toGoogleDate x (ui_timeZone ii)) (ui_end ii)"
  by (auto simp add: body_defs)

lemma ap_simps:
  "ap (Inr g) (Inr v) = Inr (g v)"
  "ap (Inl i) (Inl j) = Inl (i @ j)"
  "ap (Inl i) (Inr v) = Inl i"
  "ap (Inr g) (Inl j) = Inl j"
  by (simp_all add: ap_def)

lemma ap_Inr_iff: "ap f a = Inr y \<longleftrightarrow> (\<exists>g v. f = Inr g \<and> a = Inr v \<and> y = g v)"
  by (cases f; cases a) (auto simp: ap_simps)

lemma issues_of_simps: "issues_of (Inl is) = is" "issues_of (Inr v) = []"
  by (simp_all add: issues_of_def)

lemma issues_of_ap: "issues_of (ap f a) = issues_of f @ issues_of a"
  by (cases f; cases a) (simp_all add: ap_simps issues_of_def)

lemma ensure_initialize:
  "ensureCalendar (initialize C T) = Inr C" "ensureTasks (initialize C T) = Inr T"
  by (simp_all add: ensureCalendar_def ensureTasks_def initialize_def)

lemma registerTool_invalid:
  "schema (Some (nullish args (JObj []))) = Inl issues \<Longrightarrow>
   registerTool schema executor args s =
     (Inl (McpError InvalidParams (join ''; '' (map message issues))), s)"
  by (simp add: registerTool_def try_block_def throw_task_def)

lemma registerTool_valid:
  "schema (Some (nullish args (JObj []))) = Inr input \<Longrightarrow>
   registerTool schema executor args s =
     (case executor input s of
        (Inl e, s') \<Rightarrow> (Inl (catch_clause e), s')
      | (Inr r, s') \<Rightarrow> (Inr r, s'))"
  by (simp add: registerTool_def try_block_def)

lemma join_concat:
  "join sep ms = (case ms of [] \<Rightarrow> [] | m # rest \<Rightarrow> m @ concat (map (\<lambda>m'. sep @ m') rest))"
  by (induction sep ms rule: join.induct) simp_all

lemma z_object_string:
  "z_object Z shape (Some (nullish (Some (JStr v)) (JObj []))) =
     Inl [issue Z (invalid_type ''object'' ''string'')]"
  by (simp add: z_object_def)

lemma registerTool_rejects:
  "schema (Some (nullish args (JObj []))) = Inl issues \<Longrightarrow>
   registerTool schema executor args s =
     (Inl (McpError InvalidParams
             (case issues of
                [] \<Rightarrow> []
              | i # rest \<Rightarrow> message i @ concat (map (\<lambda>j. ''; '' @ message j) rest))),
      s)"
  by (cases issues) (simp_all add: registerTool_invalid join_concat comp_def)

lemma maxResults_too_big:
  assumes "get_prop ob ''maxResults'' = Some (JNum n)" "2500 < n"
  shows "issue Z (too_big ''number'' 2500) \<in>
           set (issues_of (listEventsInput Z (Some (JObj ob))))"
proof -
  have "issue Z (too_big ''number'' 2500) \<in>
     set (issues_of (field ob ''maxResults''
            (z_optional (z_number Z [int_check, min_check 1, max_check 2500]))))"
    using assms
    by (auto simp: field_def z_optional_def z_number_def List.map_filter_simps issues_of_def
          split: list.splits)
  then show ?thesis
    by (simp add: listEventsInput_def z_object_def issues_of_ap issues_of_simps)
qed

lemma issues_of_Inl: "issues_of r \<noteq> [] \<Longrightarrow> r = Inl (issues_of r)"
  by (cases r) (simp_all add: issues_of_def)

lemma await_eq:
  "m (world s) = (r, w) \<Longrightarrow>
   await c m s =
     (r, \<lparr> world = w, calls = calls s @ [(c, case r of Inl e \<Rightarrow> Some e | Inr _ \<Rightarrow> None)] \<rparr>)"
  by (simp add: await_def)

lemma search_loop_list_in_order:
  "list_in_order C (map (search_params inp) ids) (world s) = (pages, thrown, w) \<Longrightarrow>
   (thrown = None \<longrightarrow> length pages = length ids) \<and>
   (thrown \<noteq> None \<longrightarrow> length pages < length ids) \<and>
   search_loop C inp ids acc s =
     (case thrown of
        None \<Rightarrow>
          (Inr (acc @
                map (\<lambda>(c, page).
                       \<lparr> sr_calendarId = c,
                         sr_events =
                           map mapEvent (case items page of None \<Rightarrow> [] | Some xs \<Rightarrow> xs),
                         sr_nextPageToken = or_null (nextPageToken page) \<rparr>)
                  (zip ids pages)),
           \<lparr> world = w,
             calls = calls s @
               map (\<lambda>c. (calendar_events_list (search_params inp c), None)) ids \<rparr>)
      | Some e \<Rightarrow>
          (Inl e,
           \<lparr> world = w,
             calls = calls s @
               map (\<lambda>c. (calendar_events_list (search_params inp c), None))
                 (take (length pages) ids) @
               [(calendar_events_list (search_params inp (ids ! length pages)), Some e)] \<rparr>))"
proof (induction ids arbitrary: acc s pages thrown w)
  case Nil
  then show ?case by auto
next
  case (Cons c ids)
  obtain r w1 where step: "events_list C (search_params inp c) (world s) = (r, w1)"
    by (cases "events_list C (search_params inp c) (world s)")
  show ?case
  proof (cases r)
    case (Inl e)
    with Cons.prems step show ?thesis
      by (auto simp: await_eq)
  next
    case (Inr page)
    let ?s = "\<lparr> world = w1,
                calls = calls s @ [(calendar_events_list (search_params inp c), None)] \<rparr>"
    let ?acc = "acc @
              [\<lparr> sr_calendarId = c,
                 sr_events = map mapEvent (case items page of None \<Rightarrow> [] | Some xs \<Rightarrow> xs),
                 sr_nextPageToken = or_null (nextPageToken page) \<rparr>]"
    obtain pages' where rest: "list_in_order C (map (search_params inp) ids) (world ?s) =
        (pages', thrown, w)" and pages: "pages = page # pages'"
      using Cons.prems step Inr
      by (cases "list_in_order C (map (search_params inp) ids) w1") auto
    have loop: "search_loop C inp (c # ids) acc s = search_loop C inp ids ?acc ?s"
      using step Inr by (simp add: await_eq)
    from Cons.IH [OF rest, of ?acc] pages loop show ?thesis
      by (cases thrown) auto
  qed
qed

lemma foldl_sum_list: "foldl (\<lambda>sum x. sum + f x) n xs = n + sum_list (map f xs)"
  by (induction xs arbitrary: n) (simp_all add: add.assoc)

lemma sum_list_zip_snd:
  "length xs = length ys \<Longrightarrow> sum_list (map (\<lambda>p. f (snd p)) (zip xs ys)) = sum_list (map f ys)"
  by (induction xs ys rule: list_induct2) simp_all

lemma search_events_run:
  "search_events (initialize C T) inp s =
     (case search_loop C inp (se_calendarIds inp) [] s of
        (Inl e, s') \<Rightarrow> (Inl e, s')
      | (Inr results, s') \<Rightarrow>
          (Inr \<lparr> content = toJsonContent (JObj
                   [(''query'', JStr (se_query inp)),
                    (''totalEvents'',
                       JNum (of_nat (foldl (\<lambda>sum entry. sum + length (sr_events entry)) 0 results))),
                    (''calendars'', JArr (map entry_json results))]) \<rparr>, s'))"
  by (simp add: search_events_def ensure_initialize bind_task_def return_task_def Let_def
        split: prod.splits sum.splits)

lemma both_Inr_iff: "both a b = Inr y \<longleftrightarrow> (\<exists>u v. a = Inr u \<and> b = Inr v \<and> y = (u, v))"
  by (cases a; cases b) auto

lemma collect_length: "collect rs = Inr vs \<Longrightarrow> length vs = length rs"
proof (induction rs arbitrary: vs)
  case Nil
  then show ?case by simp
next
  case (Cons r rs)
  then show ?case
    by (cases "both r (collect rs)") (auto simp: both_Inr_iff)
qed

lemma z_array_min_nonempty:
  "z_array Z (Some (Suc 0)) p x = Inr ys \<Longrightarrow> ys \<noteq> []"
proof (cases x)
  case None
  then show "z_array Z (Some (Suc 0)) p x = Inr ys \<Longrightarrow> ys \<noteq> []"
    by (simp add: z_array_def)
next
  case (Some j)
  assume ok: "z_array Z (Some (Suc 0)) p x = Inr ys"
  with Some obtain xs where arr: "j = JArr xs"
    by (cases j) (simp_all add: z_array_def)
  with ok Some have "xs \<noteq> []" and "collect (map (\<lambda>e. p (Some e)) xs) = Inr ys"
    by (cases "collect (map (\<lambda>e. p (Some e)) xs)"; cases "xs = []"; simp add: z_array_def)+
  with collect_length [of "map (\<lambda>e. p (Some e)) xs" ys] show "ys \<noteq> []"
    by auto
qed

lemma searchEventsInput_calendarIds:
  "searchEventsInput Z x = Inr inp \<Longrightarrow> se_calendarIds inp \<noteq> []"
  by (auto simp: searchEventsInput_def z_object_def ap_Inr_iff field_def z_default_def
        split: option.splits json.splits dest!: z_array_min_nonempty)

lemma create_event_run:
  "events_insert C (create_event_params input) (world s) = (r, w) \<Longrightarrow>
   create_event (initialize C T) input s =
     (map_sum id (\<lambda>created. \<lparr> content = toJsonContent (JObj [(''event'', JObj created)]) \<rparr>) r,
      \<lparr> world = w,
        calls = calls s @ [(calendar_events_insert (create_event_params input),
                            case r of Inl e \<Rightarrow> Some e | Inr _ \<Rightarrow> None)] \<rparr>)"
  by (cases r)
     (simp_all add: create_event_def ensure_initialize bind_task_def return_task_def await_eq)

lemma update_event_run:
  "events_patch C (update_event_params input) (world s) = (r, w) \<Longrightarrow>
   update_event (initialize C T) input s =
     (map_sum id (\<lambda>updated. \<lparr> content = toJsonContent (JObj [(''event'', JObj updated)]) \<rparr>) r,
      \<lparr> world = w,
        calls = calls s @ [(calendar_events_patch (update_event_params input),
                            case r of Inl e \<Rightarrow> Some e | Inr _ \<Rightarrow> None)] \<rparr>)"
  by (cases r)
     (simp_all add: update_event_def ensure_initialize bind_task_def return_task_def await_eq)

lemma update_event_instance_run:
  "events_patch C (update_event_instance_params input) (world s) = (r, w) \<Longrightarrow>
   update_event_instance (initialize C T) input s =
     (map_sum id (\<lambda>updated. \<lparr> content = toJsonContent (JObj [(''event'', JObj updated)]) \<rparr>) r,
      \<lparr> world = w,
        calls = calls s @ [(calendar_events_patch (update_event_instance_params input),
                            case r of Inl e \<Rightarrow> Some e | Inr _ \<Rightarrow> None)] \<rparr>)"
  by (cases r)
     (simp_all add: update_event_instance_def ensure_initialize bind_task_def return_task_def
        await_eq)

lemma update_task_run:
  "tasks_patch T (update_task_params (clock (world s)) input) (world s) = (r, w) \<Longrightarrow>
   update_task clock (initialize C T) input s =
     (map_sum id (\<lambda>updated. \<lparr> content = toJsonContent (JObj [(''task'', JObj updated)]) \<rparr>) r,
      \<lparr> world = w,
        calls = calls s @ [(tasks_tasks_patch (update_task_params (clock (world s)) input),
                            case r of Inl e \<Rightarrow> Some e | Inr _ \<Rightarrow> None)] \<rparr>)"
  by (cases r)
     (simp_all add: update_task_def ensure_initialize bind_task_def return_task_def await_eq
        Let_def)

lemma complete_task_run:
  "tasks_patch T (complete_task_params (clock (world s)) input) (world s) = (r, w) \<Longrightarrow>
   complete_task clock (initialize C T) input s =
     (map_sum id (\<lambda>updated. \<lparr> content = toJsonContent (JObj [(''task'', JObj updated)]) \<rparr>) r,
      \<lparr> world = w,
        calls = calls s @ [(tasks_tasks_patch (complete_task_params (clock (world s)) input),
                            case r of Inl e \<Rightarrow> Some e | Inr _ \<Rightarrow> None)] \<rparr>)"
  by (cases r)
     (simp_all add: complete_task_def ensure_initialize bind_task_def return_task_def await_eq
        Let_def)

lemma list_tasklists_run:
  "tasklists_list T \<lparr> tl_maxResults = 100 \<rparr> (world s) = (r, w) \<Longrightarrow>
   list_tasklists (initialize C T) u s =
     (map_sum id
        (\<lambda>response.
           \<lparr> content = toJsonContent (JObj
               [(''tasklists'',
                   JArr (map mapTaskList (case tl_items response of None \<Rightarrow> [] | Some xs \<Rightarrow> xs))),
                (''nextPageToken'', or_null (tl_nextPageToken response))]) \<rparr>) r,
      \<lparr> world = w,
        calls = calls s @ [(tasks_tasklists_list \<lparr> tl_maxResults = 100 \<rparr>,
                            case r of Inl e \<Rightarrow> Some e | Inr _ \<Rightarrow> None)] \<rparr>)"
  by (cases r)
     (simp_all add: list_tasklists_def ensure_initialize bind_task_def return_task_def await_eq
        Let_def)

lemma logged_calls:
  "map fst (calls (snd (create_event (initialize C T) ci s))) =
     map fst (calls s) @ [calendar_events_insert (create_event_params ci)]"
  "map fst (calls (snd (update_event (initialize C T) ui s))) =
     map fst (calls s) @ [calendar_events_patch (update_event_params ui)]"
  "map fst (calls (snd (update_event_instance (initialize C T) ii s))) =
     map fst (calls s) @ [calendar_events_patch (update_event_instance_params ii)]"
  "map fst (calls (snd (update_task clock (initialize C T) ut s))) =
     map fst (calls s) @ [tasks_tasks_patch (update_task_params (clock (world s)) ut)]"
  "map fst (calls (snd (complete_task clock (initialize C T) ct s))) =
     map fst (calls s) @ [tasks_tasks_patch (complete_task_params (clock (world s)) ct)]"
  "map fst (calls (snd (list_tasklists (initialize C T) u s))) =
     map fst (calls s) @ [tasks_tasklists_list \<lparr> tl_maxResults = 100 \<rparr>]"
proof -
  show "map fst (calls (snd (create_event (initialize C T) ci s))) =
     map fst (calls s) @ [calendar_events_insert (create_event_params ci)]"
    by (cases "events_insert C (create_event_params ci) (world s)")
       (simp add: create_event_run)
  show "map fst (calls (snd (update_event (initialize C T) ui s))) =
     map fst (calls s) @ [calendar_events_patch (update_event_params ui)]"
    by (cases "events_patch C (update_event_params ui) (world s)")
       (simp add: update_event_run)
  show "map fst (calls (snd (update_event_instance (initialize C T) ii s))) =
     map fst (calls s) @ [calendar_events_patch (update_event_instance_params ii)]"
    by (cases "events_patch C (update_event_instance_params ii) (world s)")
       (simp add: update_event_instance_run)
  show "map fst (calls (snd (update_task clock (initialize C T) ut s))) =
     map fst (calls s) @ [tasks_tasks_patch (update_task_params (clock (world s)) ut)]"
    by (cases "tasks_patch T (update_task_params (clock (world s)) ut) (world s)")
       (simp add: update_task_run)
  show "map fst (calls (snd (complete_task clock (initialize C T) ct s))) =
     map fst (calls s) @ [tasks_tasks_patch (complete_task_params (clock (world s)) ct)]"
    by (cases "tasks_patch T (complete_task_params (clock (world s)) ct) (world s)")
       (simp add: complete_task_run)
  show "map fst (calls (snd (list_tasklists (initialize C T) u s))) =
     map fst (calls s) @ [tasks_tasklists_list \<lparr> tl_maxResults = 100 \<rparr>]"
    by (cases "tasklists_list T \<lparr> tl_maxResults = 100 \<rparr> (world s)")
       (simp add: list_tasklists_run)
qed

lemma updateTaskInput_reads:
  assumes "get_prop ob ''tasklistId'' = get_prop ob' ''tasklistId''"
    "get_prop ob ''taskId'' = get_prop ob' ''taskId''"
    "get_prop ob ''title'' = get_prop ob' ''title''"
    "get_prop ob ''notes'' = get_prop ob' ''notes''"
    "get_prop ob ''due'' = get_prop ob' ''due''"
    "get_prop ob ''status'' = get_prop ob' ''status''"
  shows "updateTaskInput Z (Some (JObj ob)) = updateTaskInput Z (Some (JObj ob'))"
  using assms by (simp add: updateTaskInput_def z_object_def field_def)

lemma completeTaskInput_reads:
  assumes "get_prop ob ''tasklistId'' = get_prop ob' ''tasklistId''"
    "get_prop ob ''taskId'' = get_prop ob' ''taskId''"
  shows "completeTaskInput Z (Some (JObj ob)) = completeTaskInput Z (Some (JObj ob'))"
  using assms by (simp add: completeTaskInput_def z_object_def field_def)

lemma update_event_requestBody_eq:
  "update_event_requestBody ui =
     \<lparr> ev_summary = ue_summary ui,
       ev_start = map_option (\<lambda>v. toGoogleDate v (ue_timeZone ui)) (ue_start ui),
       ev_end = map_option (\<lambda>v. toGoogleDate v (ue_timeZone ui)) (ue_end ui),
       ev_id = None,
       ev_description = description ui, ev_location = location ui,
       ev_colorId = colorId ui, ev_recurrence = recurrence ui,
       ev_transparency = transparency ui, ev_visibility = visibility ui,
       ev_attendees = mapAttendeesForRequest (attendees ui),
       ev_reminders = mapReminders (reminders ui),
       ev_conferenceData = conferenceData ui,
       ev_extendedProperties = mapExtendedProperties (extendedProperties ui),
       ev_guestsCanInviteOthers = guestsCanInviteOthers ui,
       ev_guestsCanModify = guestsCanModify ui,
       ev_guestsCanSeeOtherGuests = guestsCanSeeOtherGuests ui,
       ev_anyoneCanAddSelf = anyoneCanAddSelf ui,
       ev_attachments = attachments ui, ev_source = source ui \<rparr>"
  by (rule Schema_Event.equality)
     (auto simp: body_defs mapReminders_def mapExtendedProperties_def
        mapAttendeesForRequest_def)

lemma update_event_instance_requestBody_eq:
  "update_event_instance_requestBody ii =
     \<lparr> ev_summary = ui_summary ii,
       ev_start = map_option (\<lambda>v. toGoogleDate v (ui_timeZone ii)) (ui_start ii),
       ev_end = map_option (\<lambda>v. toGoogleDate v (ui_timeZone ii)) (ui_end ii),
       ev_id = None,
       ev_description = description ii, ev_location = location ii,
       ev_colorId = colorId ii, ev_recurrence = recurrence ii,
       ev_transparency = transparency ii, ev_visibility = visibility ii,
       ev_attendees = mapAttendeesForRequest (attendees ii),
       ev_reminders = mapReminders (reminders ii),
       ev_conferenceData = conferenceData ii,
       ev_extendedProperties = mapExtendedProperties (extendedProperties ii),
       ev_guestsCanInviteOthers = guestsCanInviteOthers ii,
       ev_guestsCanModify = guestsCanModify ii,
       ev_guestsCanSeeOtherGuests = guestsCanSeeOtherGuests ii,
       ev_anyoneCanAddSelf = anyoneCanAddSelf ii,
       ev_attachments = attachments ii, ev_source = source ii \<rparr>"
  by (rule Schema_Event.equality)
     (auto simp: body_defs mapReminders_def mapExtendedProperties_def
        mapAttendeesForRequest_def)

lemma update_task_requestBody_eq:
  "update_task_requestBody now ut =
     \<lparr> tk_title = ut_title ut, tk_notes = ut_notes ut, tk_due = ut_due ut,
       tk_status = ut_status ut,
       tk_completed = (if ut_status ut = Some task_completed then Some now else None) \<rparr>"
  by (rule Schema_Task.equality)
     (auto simp: update_task_requestBody_def empty_task_def Let_def)

section \<open>Date and time values (C1)\<close>

text \<open>
  C1, as the specification states it: a start or end string that matches exactly
  \<^verbatim>\<open>YYYY-MM-DD\<close> is sent as \<^verbatim>\<open>{date}\<close>, any other as \<^verbatim>\<open>{dateTime}\<close> with a
  \<^verbatim>\<open>timeZone\<close> key if and only if a time zone was supplied. The following arguments of
  \<^verbatim>\<open>create-event\<close> pass validation with the time zone supplied as the empty string, and the
  start that is sent has no \<^verbatim>\<open>timeZone\<close>: \<^verbatim>\<open>toGoogleDate\<close> tests the time zone for
  truthiness, and the empty string is falsy.
\<close>

theorem toGoogleDate_empty_timeZone_counterexample:
  "map_sum id (\<lambda>input. (ce_timeZone input, ev_start (create_event_requestBody input)))
     (createEventInput example_zod
        (Some (JObj [(''summary'', JStr ''Standup''),
                     (''start'', JStr ''2024-01-10T09:00:00-08:00''),
                     (''end'', JStr ''2024-01-10T09:30:00-08:00''),
                     (''timeZone'', JStr '''')]))) =
   Inr (Some '''',
        Some \<lparr> date = None, dateTime = Some ''2024-01-10T09:00:00-08:00'', timeZone = None \<rparr>)"
  by (simp add: createEventInput_def schema_defs event_schema_defs ev_start_end_bodies
        toGoogleDate_def DATE_ONLY_REGEX_def)

text \<open>
  C1, amended: a start or end string that matches exactly \<^verbatim>\<open>YYYY-MM-DD\<close> is sent as
  \<^verbatim>\<open>{date: value}\<close>; any other string is sent as \<^verbatim>\<open>{dateTime: value}\<close>, with the
  \<^verbatim>\<open>timeZone\<close> key added if and only if a non-empty time zone was supplied; no value has
  both \<^verbatim>\<open>date\<close> and \<^verbatim>\<open>dateTime\<close>. This is how \<^verbatim>\<open>create-event\<close> builds start and end, and how
  \<^verbatim>\<open>update-event\<close> and \<^verbatim>\<open>update-event-instance\<close> build each of them that is supplied.
\<close>

theorem toGoogleDate_date_or_dateTime:
  "toGoogleDate v tz =
     (if is_YYYY_MM_DD v then \<lparr> date = Some v, dateTime = None, timeZone = None \<rparr>
      else \<lparr> date = None, dateTime = Some v,
             timeZone = (if tz = None \<or> tz = Some [] then None else tz) \<rparr>)
   \<and> \<not> (date (toGoogleDate v tz) \<noteq> None \<and> dateTime (toGoogleDate v tz) \<noteq> None)
   \<and> ev_start (create_event_requestBody ci) =
        Some (toGoogleDate (ce_start ci) (ce_timeZone ci))
   \<and> ev_end (create_event_requestBody ci) = Some (toGoogleDate (ce_end ci) (ce_timeZone ci))
   \<and> ev_start (update_event_requestBody ui) =
        map_option (\<lambda>x. toGoogleDate x (ue_timeZone ui)) (ue_start ui)
   \<and> ev_end (update_event_requestBody ui) =
        map_option (\<lambda>x. toGoogleDate x (ue_timeZone ui)) (ue_end ui)
   \<and> ev_start (update_event_instance_requestBody ii) =
        map_option (\<lambda>x. toGoogleDate x (ui_timeZone ii)) (ui_start ii)
   \<and> ev_end (update_event_instance_requestBody ii) =
        map_option (\<lambda>x. toGoogleDate x (ui_timeZone ii)) (ui_end ii)"
proof -
  have shape: "toGoogleDate v tz =
     (if is_YYYY_MM_DD v then \<lparr> date = Some v, dateTime = None, timeZone = None \<rparr>
      else \<lparr> date = None, dateTime = Some v,
             timeZone = (if tz = None \<or> tz = Some [] then None else tz) \<rparr>)"
    unfolding toGoogleDate_def DATE_ONLY_REGEX_iff truthy_iff by simp
  have never_both:
    "\<not> (date (toGoogleDate v tz) \<noteq> None \<and> dateTime (toGoogleDate v tz) \<noteq> None)"
    unfolding shape by simp
  from shape never_both show ?thesis
    by (simp only: ev_start_end_bodies simp_thms)
qed

theorem toGoogleDate_date_or_dateTime_witness:
  "toGoogleDate ''2024-01-10'' (Some ''Asia/Tokyo'') =
     \<lparr> date = Some ''2024-01-10'', dateTime = None, timeZone = None \<rparr>
   \<and> toGoogleDate ''2024-01-10T09:00:00'' (Some ''Asia/Tokyo'') =
     \<lparr> date = None, dateTime = Some ''2024-01-10T09:00:00'', timeZone = Some ''Asia/Tokyo'' \<rparr>
   \<and> toGoogleDate ''2024-01-10T09:00:00-08:00'' None =
     \<lparr> date = None, dateTime = Some ''2024-01-10T09:00:00-08:00'', timeZone = None \<rparr>"
  using toGoogleDate_date_or_dateTime [of "''2024-01-10''" "Some ''Asia/Tokyo''"]
        toGoogleDate_date_or_dateTime [of "''2024-01-10T09:00:00''" "Some ''Asia/Tokyo''"]
        toGoogleDate_date_or_dateTime [of "''2024-01-10T09:00:00-08:00''" None]
  by (simp add: is_YYYY_MM_DD_def is_digit_at_def)

section \<open>Partial updates (C2)\<close>

text \<open>
  C2, as the specification states it: the request body of an update operation contains a
  field if and only if the caller supplied it. These arguments of \<^verbatim>\<open>update-event\<close> pass
  validation and supply \<^verbatim>\<open>reminders\<close>, as an empty object; the request body has no
  reminders, because \<^verbatim>\<open>mapReminders\<close> maps a reminders value without content to
  \<^verbatim>\<open>undefined\<close>.
\<close>

theorem update_event_empty_reminders_counterexample:
  "map_sum id (\<lambda>input. (reminders input, ev_reminders (ep_requestBody (update_event_params input))))
     (updateEventInput example_zod
        (Some (JObj [(''eventId'', JStr ''e1''), (''reminders'', JObj [])]))) =
   Inr (Some \<lparr> useDefault = None, overrides = None \<rparr>, None)"
  by (simp add: updateEventInput_def schema_defs event_schema_defs update_event_params_def
        ev_reminders_bodies mapReminders_def Reminders_keys_def)

text \<open>
  C2, amended: the request body of \<^verbatim>\<open>update-event\<close> and of \<^verbatim>\<open>update-event-instance\<close> holds
  each of summary, description, location, colour, recurrence, transparency, visibility,
  conference data, the four guest permissions, attachments and source exactly as the input
  has it, so if and only if it was supplied; start and end if and only if supplied, as
  date values; attendees if and only if supplied; reminders and extended properties only
  if supplied, and then if and only if they map to a value (C6, C7); and never an
  \<^verbatim>\<open>id\<close>. The request body of \<^verbatim>\<open>update-task\<close> holds title, notes, due and status exactly
  as the input has them, and \<^verbatim>\<open>completed\<close> if and only if the status \<^verbatim>\<open>completed\<close> was
  supplied (C8). With no optional field supplied each of the three bodies is empty. These
  bodies are the ones of the one backend call each handler makes.
\<close>

theorem update_bodies_hold_what_was_supplied:
  "ep_requestBody (update_event_params ui) =
     \<lparr> ev_summary = ue_summary ui,
       ev_start = map_option (\<lambda>v. toGoogleDate v (ue_timeZone ui)) (ue_start ui),
       ev_end = map_option (\<lambda>v. toGoogleDate v (ue_timeZone ui)) (ue_end ui),
       ev_id = None,
       ev_description = description ui, ev_location = location ui,
       ev_colorId = colorId ui, ev_recurrence = recurrence ui,
       ev_transparency = transparency ui, ev_visibility = visibility ui,
       ev_attendees = mapAttendeesForRequest (attendees ui),
       ev_reminders = mapReminders (reminders ui),
       ev_conferenceData = conferenceData ui,
       ev_extendedProperties = mapExtendedProperties (extendedProperties ui),
       ev_guestsCanInviteOthers = guestsCanInviteOthers ui,
       ev_guestsCanModify = guestsCanModify ui,
       ev_guestsCanSeeOtherGuests = guestsCanSeeOtherGuests ui,
       ev_anyoneCanAddSelf = anyoneCanAddSelf ui,
       ev_attachments = attachments ui, ev_source = source ui \<rparr>
   \<and> ep_requestBody (update_event_instance_params ii) =
     \<lparr> ev_summary = ui_summary ii,
       ev_start = map_option (\<lambda>v. toGoogleDate v (ui_timeZone ii)) (ui_start ii),
       ev_end = map_option (\<lambda>v. toGoogleDate v (ui_timeZone ii)) (ui_end ii),
       ev_id = None,
       ev_description = description ii, ev_location = location ii,
       ev_colorId = colorId ii, ev_recurrence = recurrence ii,
       ev_transparency = transparency ii, ev_visibility = visibility ii,
       ev_attendees = mapAttendeesForRequest (attendees ii),
       ev_reminders = mapReminders (reminders ii),
       ev_conferenceData = conferenceData ii,
       ev_extendedProperties = mapExtendedProperties (extendedProperties ii),
       ev_guestsCanInviteOthers = guestsCanInviteOthers ii,
       ev_guestsCanModify = guestsCanModify ii,
       ev_guestsCanSeeOtherGuests = guestsCanSeeOtherGuests ii,
       ev_anyoneCanAddSelf = anyoneCanAddSelf ii,
       ev_attachments = attachments ii, ev_source = source ii \<rparr>
   \<and> tp_requestBody (update_task_params now ut) =
     \<lparr> tk_title = ut_title ut, tk_notes = ut_notes ut, tk_due = ut_due ut,
       tk_status = ut_status ut,
       tk_completed = (if ut_status ut = Some task_completed then Some now else None) \<rparr>
   \<and> (mapAttendeesForRequest as \<noteq> None) = (as \<noteq> None)
   \<and> (mapReminders rs \<noteq> None) =
       (\<exists>r. rs = Some r \<and>
            (useDefault r \<noteq> None \<or> (\<exists>os. overrides r = Some os \<and> os \<noteq> [])))
   \<and> (mapExtendedProperties eps \<noteq> None) =
       (\<exists>ep. eps = Some ep \<and> (has_keys (private' ep) \<or> has_keys (shared ep)))
   \<and> (ue_summary ui = None \<and> ue_start ui = None \<and> ue_end ui = None \<and> no_common_fields ui
        \<longrightarrow> ep_requestBody (update_event_params ui) = empty_event)
   \<and> (ui_summary ii = None \<and> ui_start ii = None \<and> ui_end ii = None \<and> no_common_fields ii
        \<longrightarrow> ep_requestBody (update_event_instance_params ii) = empty_event)
   \<and> (ut_title ut = None \<and> ut_notes ut = None \<and> ut_due ut = None \<and> ut_status ut = None
        \<longrightarrow> tp_requestBody (update_task_params now ut) = empty_task)
   \<and> map fst (calls (snd (update_event (initialize C T) ui s))) =
       map fst (calls s) @ [calendar_events_patch (update_event_params ui)]
   \<and> map fst (calls (snd (update_event_instance (initialize C T) ii s))) =
       map fst (calls s) @ [calendar_events_patch (update_event_instance_params ii)]
   \<and> map fst (calls (snd (update_task clock (initialize C T) ut s))) =
       map fst (calls s) @ [tasks_tasks_patch (update_task_params (clock (world s)) ut)]"
proof -
  have bodies:
    "ep_requestBody (update_event_params ui) = update_event_requestBody ui"
    "ep_requestBody (update_event_instance_params ii) = update_event_instance_requestBody ii"
    "tp_requestBody (update_task_params now ut) = update_task_requestBody now ut"
    by (simp_all add: update_event_params_def update_event_instance_params_def
          update_task_params_def)
  have attendees: "(mapAttendeesForRequest as \<noteq> None) = (as \<noteq> None)"
    by (simp add: mapAttendeesForRequest_def)
  have reminders: "(mapReminders rs \<noteq> None) =
       (\<exists>r. rs = Some r \<and>
            (useDefault r \<noteq> None \<or> (\<exists>os. overrides r = Some os \<and> os \<noteq> [])))"
  proof (cases rs)
    case None
    then show ?thesis by (simp add: mapReminders_def)
  next
    case (Some r)
    then show ?thesis
      by (cases "overrides r") (auto simp: mapReminders_Some)
  qed
  have extended: "(mapExtendedProperties eps \<noteq> None) =
       (\<exists>ep. eps = Some ep \<and> (has_keys (private' ep) \<or> has_keys (shared ep)))"
  proof (cases eps)
    case None
    then show ?thesis by (simp add: mapExtendedProperties_def)
  next
    case (Some ep)
    then show ?thesis by (simp add: mapExtendedProperties_Some)
  qed
  have mapped_none: "mapAttendeesForRequest None = None" "mapReminders None = None"
    "mapExtendedProperties None = None"
    by (simp_all add: mapAttendeesForRequest_def mapReminders_def mapExtendedProperties_def)
  have empty_event: "ep_requestBody (update_event_params ui) = empty_event"
    if "ue_summary ui = None \<and> ue_start ui = None \<and> ue_end ui = None \<and> no_common_fields ui"
    using that unfolding bodies update_event_requestBody_eq no_common_fields_def
    by (simp add: mapped_none empty_event_def)
  have empty_instance: "ep_requestBody (update_event_instance_params ii) = empty_event"
    if "ui_summary ii = None \<and> ui_start ii = None \<and> ui_end ii = None \<and> no_common_fields ii"
    using that unfolding bodies update_event_instance_requestBody_eq no_common_fields_def
    by (simp add: mapped_none empty_event_def)
  have empty_task: "tp_requestBody (update_task_params now ut) = empty_task"
    if "ut_title ut = None \<and> ut_notes ut = None \<and> ut_due ut = None \<and> ut_status ut = None"
    using that unfolding bodies update_task_requestBody_eq
    by (simp add: empty_task_def)
  have closed:
    "ep_requestBody (update_event_params ui) =
     \<lparr> ev_summary = ue_summary ui,
       ev_start = map_option (\<lambda>v. toGoogleDate v (ue_timeZone ui)) (ue_start ui),
       ev_end = map_option (\<lambda>v. toGoogleDate v (ue_timeZone ui)) (ue_end ui),
       ev_id = None,
       ev_description = description ui, ev_location = location ui,
       ev_colorId = colorId ui, ev_recurrence = recurrence ui,
       ev_transparency = transparency ui, ev_visibility = visibility ui,
       ev_attendees = mapAttendeesForRequest (attendees ui),
       ev_reminders = mapReminders (reminders ui),
       ev_conferenceData = conferenceData ui,
       ev_extendedProperties = mapExtendedProperties (extendedProperties ui),
       ev_guestsCanInviteOthers = guestsCanInviteOthers ui,
       ev_guestsCanModify = guestsCanModify ui,
       ev_guestsCanSeeOtherGuests = guestsCanSeeOtherGuests ui,
       ev_anyoneCanAddSelf = anyoneCanAddSelf ui,
       ev_attachments = attachments ui, ev_source = source ui \<rparr>"
    "ep_requestBody (update_event_instance_params ii) =
     \<lparr> ev_summary = ui_summary ii,
       ev_start = map_option (\<lambda>v. toGoogleDate v (ui_timeZone ii)) (ui_start ii),
       ev_end = map_option (\<lambda>v. toGoogleDate v (ui_timeZone ii)) (ui_end ii),
       ev_id = None,
       ev_description = description ii, ev_location = location ii,
       ev_colorId = colorId ii, ev_recurrence = recurrence ii,
       ev_transparency = transparency ii, ev_visibility = visibility ii,
       ev_attendees = mapAttendeesForRequest (attendees ii),
       ev_reminders = mapReminders (reminders ii),
       ev_conferenceData = conferenceData ii,
       ev_extendedProperties = mapExtendedProperties (extendedProperties ii),
       ev_guestsCanInviteOthers = guestsCanInviteOthers ii,
       ev_guestsCanModify = guestsCanModify ii,
       ev_guestsCanSeeOtherGuests = guestsCanSeeOtherGuests ii,
       ev_anyoneCanAddSelf = anyoneCanAddSelf ii,
       ev_attachments = attachments ii, ev_source = source ii \<rparr>"
    "tp_requestBody (update_task_params now ut) =
     \<lparr> tk_title = ut_title ut, tk_notes = ut_notes ut, tk_due = ut_due ut,
       tk_status = ut_status ut,
       tk_completed = (if ut_status ut = Some task_completed then Some now else None) \<rparr>"
    unfolding bodies
    by (rule update_event_requestBody_eq update_event_instance_requestBody_eq
          update_task_requestBody_eq)+
  show ?thesis
    by (intro conjI closed attendees reminders extended logged_calls)
       (use empty_event empty_instance empty_task in blast)+
qed

theorem update_bodies_hold_what_was_supplied_witness:
  "ep_requestBody (update_event_params (example_update_input\<lparr> reminders := None \<rparr>)) =
     empty_event
   \<and> tp_requestBody (update_task_params ''2024-01-10T17:00:00.000Z''
        \<lparr> ut_tasklistId = ''@default'', ut_taskId = ''t1'', ut_title = None, ut_notes = None,
          ut_due = None, ut_status = None \<rparr>) = empty_task"
proof -
  let ?ui = "example_update_input\<lparr> reminders := None \<rparr>"
  let ?ut = "\<lparr> ut_tasklistId = ''@default'', ut_taskId = ''t1'', ut_title = None,
               ut_notes = None, ut_due = None, ut_status = None \<rparr>"
  note all = update_bodies_hold_what_was_supplied
          [where ui = ?ui and ut = ?ut and now = "''2024-01-10T17:00:00.000Z''"]
  note event = all [THEN conjunct2, THEN conjunct2, THEN conjunct2, THEN conjunct2,
                    THEN conjunct2, THEN conjunct2, THEN conjunct1]
  note task = all [THEN conjunct2, THEN conjunct2, THEN conjunct2, THEN conjunct2,
                   THEN conjunct2, THEN conjunct2, THEN conjunct2, THEN conjunct2,
                   THEN conjunct1]
  have no_event_field: "ue_summary ?ui = None \<and> ue_start ?ui = None \<and> ue_end ?ui = None \<and>
      no_common_fields ?ui"
    by (simp add: example_update_input_def no_common_fields_def)
  have no_task_field: "ut_title ?ut = None \<and> ut_notes ?ut = None \<and> ut_due ?ut = None \<and>
      ut_status ?ut = None"
    by simp
  from event no_event_field task no_task_field show ?thesis
    by blast
qed

section \<open>Creating an event (C3)\<close>

text \<open>
  C3, as the specification states it: \<^verbatim>\<open>create-event\<close> returns the normalised event, in
  which every field absent on the backend's raw entity is an explicit \<^verbatim>\<open>null\<close>. In the
  scenario of the specification, with a backend whose created entity has an \<^verbatim>\<open>id\<close> and a
  \<^verbatim>\<open>summary\<close> only, the returned event is that entity: it has no \<^verbatim>\<open>description\<close>
  property, where the normalised event would have \<^verbatim>\<open>null\<close>. The handler passes
  \<^verbatim>\<open>created.data\<close> on and does not call \<^verbatim>\<open>mapEvent\<close>.
\<close>

theorem create_event_returns_raw_entity_counterexample:
  "fst (registerTool (createEventInput example_zod)
          (create_event (initialize example_calendar example_tasks))
          (Some example_create_args) example_state) =
     Inr \<lparr> content =
             [\<lparr> type' = ''text'',
                text' = JObj [(''event'', JObj [(''id'', JStr ''abc123''),
                                               (''summary'', JStr ''Standup'')])] \<rparr>] \<rparr>
   \<and> get_prop [(''id'', JStr ''abc123''), (''summary'', JStr ''Standup'')] ''description'' = None
   \<and> get_prop (properties (mapEvent [(''id'', JStr ''abc123''), (''summary'', JStr ''Standup'')]))
         ''description'' = Some JNull"
proof -
  have valid: "createEventInput example_zod (Some (nullish (Some example_create_args) (JObj []))) =
      Inr example_create_input"
    by (simp add: createEventInput_def schema_defs event_schema_defs example_create_args_def
          example_create_input_def)
  have insert: "events_insert example_calendar p (world example_state) =
      (Inr [(''id'', JStr ''abc123''), (''summary'', JStr ''Standup'')], 1)" for p
    by (simp add: example_calendar_def example_state_def example_entity_def)
  show ?thesis
    by (simp add: registerTool_valid [where input = example_create_input] valid
          create_event_run [OF insert] toJsonContent_def mapEvent_def get_prop_def)
qed

text \<open>
  C3, amended: a \<^verbatim>\<open>create-event\<close> invocation whose arguments validate makes one backend
  call, an insert into the supplied calendar whose request body has the supplied summary
  and, for a start that is not a date-only string and with no time zone supplied, the start
  \<^verbatim>\<open>{dateTime: start}\<close> with no \<^verbatim>\<open>timeZone\<close>. When the insert returns, the invocation returns
  one text item holding \<^verbatim>\<open>{event: created}\<close>, where \<^verbatim>\<open>created\<close> is the backend's entity as it
  is; a field absent on the entity is therefore absent from the result and not an explicit
  \<^verbatim>\<open>null\<close>.
\<close>

theorem create_event_sends_body_and_returns_entity:
  assumes valid: "createEventInput Z (Some (nullish args (JObj []))) = Inr input"
    and insert: "events_insert C (create_event_params input) (world s) = (Inr created, w)"
  shows "registerTool (createEventInput Z) (create_event (initialize C T)) args s =
      (Inr \<lparr> content =
               [\<lparr> type' = ''text'', text' = JObj [(''event'', JObj created)] \<rparr>] \<rparr>,
       \<lparr> world = w,
         calls = calls s @ [(calendar_events_insert (create_event_params input), None)] \<rparr>)
    \<and> ei_calendarId (create_event_params input) = ce_calendarId input
    \<and> ev_summary (ei_requestBody (create_event_params input)) = Some (ce_summary input)
    \<and> (\<not> is_YYYY_MM_DD (ce_start input) \<and> ce_timeZone input = None \<longrightarrow>
          ev_start (ei_requestBody (create_event_params input)) =
            Some \<lparr> date = None, dateTime = Some (ce_start input), timeZone = None \<rparr>)"
proof -
  have run: "registerTool (createEventInput Z) (create_event (initialize C T)) args s =
      (Inr \<lparr> content =
               [\<lparr> type' = ''text'', text' = JObj [(''event'', JObj created)] \<rparr>] \<rparr>,
       \<lparr> world = w,
         calls = calls s @ [(calendar_events_insert (create_event_params input), None)] \<rparr>)"
    using valid
    by (simp add: registerTool_valid [where input = input] create_event_run [OF insert]
          toJsonContent_def)
  have body: "ei_calendarId (create_event_params input) = ce_calendarId input"
    "ev_summary (ei_requestBody (create_event_params input)) = Some (ce_summary input)"
    by (simp_all add: create_event_params_def body_defs)
  have start: "ev_start (ei_requestBody (create_event_params input)) =
            Some \<lparr> date = None, dateTime = Some (ce_start input), timeZone = None \<rparr>"
    if "\<not> is_YYYY_MM_DD (ce_start input)" "ce_timeZone input = None"
    using that
    by (simp add: create_event_params_def ev_start_end_bodies toGoogleDate_def
          DATE_ONLY_REGEX_iff)
  from run body start show ?thesis
    by blast
qed

theorem create_event_sends_body_and_returns_entity_witness:
  "createEventInput example_zod (Some (nullish (Some example_create_args) (JObj []))) =
     Inr example_create_input
   \<and> events_insert example_calendar (create_event_params example_create_input)
        (world example_state) =
      (Inr [(''id'', JStr ''abc123''), (''summary'', JStr ''Standup'')], 1)
   \<and> registerTool (createEventInput example_zod)
        (create_event (initialize example_calendar example_tasks))
        (Some example_create_args) example_state =
      (Inr \<lparr> content =
               [\<lparr> type' = ''text'',
                  text' = JObj [(''event'', JObj [(''id'', JStr ''abc123''),
                                                 (''summary'', JStr ''Standup'')])] \<rparr>] \<rparr>,
       \<lparr> world = 1,
         calls = [(calendar_events_insert (create_event_params example_create_input), None)] \<rparr>)
   \<and> ei_calendarId (create_event_params example_create_input) = ''primary''
   \<and> ev_summary (ei_requestBody (create_event_params example_create_input)) = Some ''Standup''
   \<and> ev_start (ei_requestBody (create_event_params example_create_input)) =
        Some \<lparr> date = None, dateTime = Some ''2024-01-10T09:00:00-08:00'', timeZone = None \<rparr>"
proof -
  have valid: "createEventInput example_zod (Some (nullish (Some example_create_args) (JObj []))) =
      Inr example_create_input"
    by (simp add: createEventInput_def schema_defs event_schema_defs example_create_args_def
          example_create_input_def)
  have insert: "events_insert example_calendar (create_event_params example_create_input)
        (world example_state) =
      (Inr [(''id'', JStr ''abc123''), (''summary'', JStr ''Standup'')], 1)"
    by (simp add: example_calendar_def example_state_def example_entity_def)
  have timestamp: "\<not> is_YYYY_MM_DD (ce_start example_create_input) \<and>
      ce_timeZone example_create_input = None"
    by (simp add: example_create_input_def is_YYYY_MM_DD_def)
  have supplied: "ce_start example_create_input = ''2024-01-10T09:00:00-08:00''"
    "ce_calendarId example_create_input = ''primary''"
    "ce_summary example_create_input = ''Standup''"
    by (simp_all add: example_create_input_def)
  from create_event_sends_body_and_returns_entity [OF valid insert] valid insert timestamp
  show ?thesis
    by (simp add: example_state_def supplied)
qed

section \<open>Invalid arguments (C4)\<close>

text \<open>
  C4: when the raw arguments (an empty object if none are given) fail the schema a tool
  was registered with, the callback \<^verbatim>\<open>registerTool\<close> has built for the tool ends with the
  protocol error \<^verbatim>\<open>InvalidParams\<close> whose message is the message of every issue, in the
  order of the issues: the first message, and each further one after \<^verbatim>\<open>"; "\<close>. The
  outcome does not depend on the handler and the state is the one before the call: the
  handler did not run and no backend call was made. This holds for any schema and handler.
  Each of the fifteen callbacks the server registers is such a callback; all of them
  reject, for one, an argument that is a string and not an object. The \<^verbatim>\<open>list-events\<close>
  callback on arguments with \<^verbatim>\<open>maxResults\<close> above 2500 is rejected in this way, the issue
  of the exceeded maximum being among its issues.
\<close>

theorem invalid_arguments_rejected_before_handler:
  "(schema (Some (nullish args (JObj []))) = Inl issues \<longrightarrow>
      registerTool schema executor args s =
        (Inl (McpError InvalidParams
                (case issues of
                   [] \<Rightarrow> []
                 | i # rest \<Rightarrow> message i @ concat (map (\<lambda>j. ''; '' @ message j) rest))),
         s))
   \<and> (\<forall>(name, callback) \<in> set (registerCalendarTools Z this @ registerTaskTools Z clock this).
         callback (Some (JStr v)) s =
           (Inl (McpError InvalidParams (errorMap Z (invalid_type ''object'' ''string''))), s))
   \<and> (get_prop ob ''maxResults'' = Some (JNum n) \<and> 2500 < n \<longrightarrow>
        (\<exists>issues.
           listEventsInput Z (Some (JObj ob)) = Inl issues \<and>
           issue Z (too_big ''number'' 2500) \<in> set issues \<and>
           registerTool (listEventsInput Z) (list_events this) (Some (JObj ob)) s =
             (Inl (McpError InvalidParams
                     (case issues of
                        [] \<Rightarrow> []
                      | i # rest \<Rightarrow> message i @ concat (map (\<lambda>j. ''; '' @ message j) rest))),
              s)))"
proof -
  have not_an_object: "callback (Some (JStr v)) s =
           (Inl (McpError InvalidParams (errorMap Z (invalid_type ''object'' ''string''))), s)"
    if "(name, callback) \<in>
          set (registerCalendarTools Z this @ registerTaskTools Z clock this)"
    for name callback
  proof -
    have schemas:
      "emptyObjectInput Z (Some (nullish (Some (JStr v)) (JObj []))) =
         Inl [issue Z (invalid_type ''object'' ''string'')]"
      "listEventsInput Z (Some (nullish (Some (JStr v)) (JObj []))) =
         Inl [issue Z (invalid_type ''object'' ''string'')]"
      "searchEventsInput Z (Some (nullish (Some (JStr v)) (JObj []))) =
         Inl [issue Z (invalid_type ''object'' ''string'')]"
      "createEventInput Z (Some (nullish (Some (JStr v)) (JObj []))) =
         Inl [issue Z (invalid_type ''object'' ''string'')]"
      "updateEventInput Z (Some (nullish (Some (JStr v)) (JObj []))) =
         Inl [issue Z (invalid_type ''object'' ''string'')]"
      "listEventInstancesInput Z (Some (nullish (Some (JStr v)) (JObj []))) =
         Inl [issue Z (invalid_type ''object'' ''string'')]"
      "updateEventInstanceInput Z (Some (nullish (Some (JStr v)) (JObj []))) =
         Inl [issue Z (invalid_type ''object'' ''string'')]"
      "deleteEventInput Z (Some (nullish (Some (JStr v)) (JObj []))) =
         Inl [issue Z (invalid_type ''object'' ''string'')]"
      "deleteEventInstanceInput Z (Some (nullish (Some (JStr v)) (JObj []))) =
         Inl [issue Z (invalid_type ''object'' ''string'')]"
      "listTasksInput Z (Some (nullish (Some (JStr v)) (JObj []))) =
         Inl [issue Z (invalid_type ''object'' ''string'')]"
      "createTaskInput Z (Some (nullish (Some (JStr v)) (JObj []))) =
         Inl [issue Z (invalid_type ''object'' ''string'')]"
      "updateTaskInput Z (Some (nullish (Some (JStr v)) (JObj []))) =
         Inl [issue Z (invalid_type ''object'' ''string'')]"
      "completeTaskInput Z (Some (nullish (Some (JStr v)) (JObj []))) =
         Inl [issue Z (invalid_type ''object'' ''string'')]"
      "deleteTaskInput Z (Some (nullish (Some (JStr v)) (JObj []))) =
         Inl [issue Z (invalid_type ''object'' ''string'')]"
      unfolding emptyObjectInput_def listEventsInput_def searchEventsInput_def
        createEventInput_def updateEventInput_def listEventInstancesInput_def
        updateEventInstanceInput_def deleteEventInput_def deleteEventInstanceInput_def
        listTasksInput_def createTaskInput_def updateTaskInput_def completeTaskInput_def
        deleteTaskInput_def
      by (rule z_object_string)+
    from that show ?thesis
      unfolding registerCalendarTools_def registerTaskTools_def
      by (auto simp: registerTool_def try_block_def throw_task_def schemas [simplified]
            issue_def)
  qed
  have too_big: "\<exists>issues.
           listEventsInput Z (Some (JObj ob)) = Inl issues \<and>
           issue Z (too_big ''number'' 2500) \<in> set issues \<and>
           registerTool (listEventsInput Z) (list_events this) (Some (JObj ob)) s =
             (Inl (McpError InvalidParams
                     (case issues of
                        [] \<Rightarrow> []
                      | i # rest \<Rightarrow> message i @ concat (map (\<lambda>j. ''; '' @ message j) rest))),
              s)"
    if "get_prop ob ''maxResults'' = Some (JNum n)" "2500 < n"
  proof -
    let ?issues = "issues_of (listEventsInput Z (Some (JObj ob)))"
    have found: "issue Z (too_big ''number'' 2500) \<in> set ?issues"
      using that by (rule maxResults_too_big)
    then have "?issues \<noteq> []"
      by auto
    then have invalid: "listEventsInput Z (Some (JObj ob)) = Inl ?issues"
      by (rule issues_of_Inl)
    then have "listEventsInput Z (Some (nullish (Some (JObj ob)) (JObj []))) = Inl ?issues"
      by simp
    then have "registerTool (listEventsInput Z) (list_events this) (Some (JObj ob)) s =
        (Inl (McpError InvalidParams
                (case ?issues of
                   [] \<Rightarrow> []
                 | i # rest \<Rightarrow> message i @ concat (map (\<lambda>j. ''; '' @ message j) rest))),
         s)"
      by (rule registerTool_rejects [where schema = "listEventsInput Z"])
    with invalid found show ?thesis
      by blast
  qed
  from registerTool_rejects [of schema args issues executor s] not_an_object too_big
  show ?thesis
    by blast
qed

theorem invalid_arguments_rejected_before_handler_witness:
  "listEventsInput example_zod
     (Some (nullish (Some (JObj [(''query'', JNum 5), (''maxResults'', JNum 5000),
                                 (''calendarId'', JBool True)])) (JObj []))) =
     Inl [\<lparr> code = invalid_type ''string'' ''boolean'',
             message = ''Expected string, received boolean'' \<rparr>,
          \<lparr> code = too_big ''number'' 2500, message = ''Value is above the maximum'' \<rparr>,
          \<lparr> code = invalid_type ''string'' ''number'',
             message = ''Expected string, received number'' \<rparr>]
   \<and> registerTool (listEventsInput example_zod) (list_events example_server)
       (Some (JObj [(''query'', JNum 5), (''maxResults'', JNum 5000),
                    (''calendarId'', JBool True)])) example_state =
     (Inl (McpError InvalidParams
        ''Expected string, received boolean; Value is above the maximum; Expected string, received number''),
      example_state)
   \<and> (''list-tasklists'',
        registerTool (emptyObjectInput example_zod) (list_tasklists example_server)) \<in>
       set (registerCalendarTools example_zod example_server @
            registerTaskTools example_zod example_clock example_server)
   \<and> registerTool (emptyObjectInput example_zod) (list_tasklists example_server)
       (Some (JStr ''all'')) example_state =
     (Inl (McpError InvalidParams ''Expected object, received string''), example_state)
   \<and> get_prop [(''maxResults'', JNum 5000)] ''maxResults'' = Some (JNum 5000)
   \<and> (2500 :: number) < 5000
   \<and> listEventsInput example_zod (Some (JObj [(''maxResults'', JNum 5000)])) =
       Inl [\<lparr> code = too_big ''number'' 2500, message = ''Value is above the maximum'' \<rparr>]
   \<and> registerTool (listEventsInput example_zod) (list_events example_server)
       (Some (JObj [(''maxResults'', JNum 5000)])) example_state =
     (Inl (McpError InvalidParams ''Value is above the maximum''), example_state)"
proof -
  let ?args = "JObj [(''query'', JNum 5), (''maxResults'', JNum 5000),
                     (''calendarId'', JBool True)]"
  let ?issues = "[\<lparr> code = invalid_type ''string'' ''boolean'',
                     message = ''Expected string, received boolean'' \<rparr>,
                  \<lparr> code = too_big ''number'' 2500, message = ''Value is above the maximum'' \<rparr>,
                  \<lparr> code = invalid_type ''string'' ''number'',
                     message = ''Expected string, received number'' \<rparr>]"
  have three: "listEventsInput example_zod (Some (nullish (Some ?args) (JObj []))) = Inl ?issues"
    by (simp add: listEventsInput_def schema_defs propertyFilterSchema_def example_zod_def)
  have one: "listEventsInput example_zod (Some (JObj [(''maxResults'', JNum 5000)])) =
       Inl [\<lparr> code = too_big ''number'' 2500, message = ''Value is above the maximum'' \<rparr>]"
    by (simp add: listEventsInput_def schema_defs propertyFilterSchema_def example_zod_def)
  have registered: "(''list-tasklists'',
        registerTool (emptyObjectInput example_zod) (list_tasklists example_server)) \<in>
       set (registerCalendarTools example_zod example_server @
            registerTaskTools example_zod example_clock example_server)"
    by (simp add: registerCalendarTools_def registerTaskTools_def)
  have above: "get_prop [(''maxResults'', JNum 5000)] ''maxResults'' = Some (JNum 5000)"
    "(2500 :: number) < 5000"
    by (simp_all add: get_prop_def)
  note all = invalid_arguments_rejected_before_handler
          [where schema = "listEventsInput example_zod" and executor = "list_events example_server"
             and args = "Some ?args" and issues = ?issues and s = example_state
             and Z = example_zod and this = example_server and clock = example_clock
             and v = "''all''" and ob = "[(''maxResults'', JNum 5000)]" and n = 5000]
  have first: "registerTool (listEventsInput example_zod) (list_events example_server)
       (Some ?args) example_state =
     (Inl (McpError InvalidParams
        ''Expected string, received boolean; Value is above the maximum; Expected string, received number''),
      example_state)"
    using all [THEN conjunct1] three by simp
  have second: "registerTool (emptyObjectInput example_zod) (list_tasklists example_server)
       (Some (JStr ''all'')) example_state =
     (Inl (McpError InvalidParams ''Expected object, received string''), example_state)"
    using all [THEN conjunct2, THEN conjunct1] registered
    by (auto simp: example_zod_def)
  have third: "registerTool (listEventsInput example_zod) (list_events example_server)
       (Some (JObj [(''maxResults'', JNum 5000)])) example_state =
     (Inl (McpError InvalidParams ''Value is above the maximum''), example_state)"
    using all [THEN conjunct2, THEN conjunct2] above one by auto
  from three first registered second above one third show ?thesis
    by blast
qed

section \<open>Searching several calendars (C5)\<close>

text \<open>
  C5: a \<^verbatim>\<open>search-events\<close> invocation whose arguments validate has at least one calendar
  identifier. Its backend calls are list calls, one for each identifier in input order,
  each with that identifier as \<^verbatim>\<open>calendarId\<close> and the query as \<^verbatim>\<open>q\<close>, and each made when
  the one before has returned. When all of them return, the invocation returns one text
  item with the query, the total number of events and, in the order of the identifiers, one
  entry for each identifier with the identifier, the events of its page and the page's
  token. When one of them throws, no further call is made, and the invocation ends with
  the protocol error made from the thrown value, an \<^verbatim>\<open>InternalError\<close> when that value is
  neither a protocol error nor a validation error; being an error, the outcome holds no
  entry of the calendars listed before.
\<close>

theorem search_events_sequential_all_or_nothing:
  assumes valid: "searchEventsInput Z (Some (nullish args (JObj []))) = Inr input"
    and listed: "list_in_order C
        (map (\<lambda>c. \<lparr> el_calendarId = c, el_timeMin = se_timeMin input,
                     el_timeMax = se_timeMax input,
                     el_maxResults = se_maxResultsPerCalendar input,
                     el_q = Some (se_query input), el_singleEvents = se_singleEvents input,
                     el_orderBy = se_orderBy input, el_showDeleted = se_showDeleted input,
                     el_timeZone = se_timeZone input, el_pageToken = None,
                     el_syncToken = None,
                     el_privateExtendedProperty = se_privateExtendedProperty input,
                     el_sharedExtendedProperty = se_sharedExtendedProperty input \<rparr>)
           (se_calendarIds input))
        (world s) = (pages, thrown, w)"
  shows "se_calendarIds input \<noteq> [] \<and>
    (let call = (\<lambda>c. calendar_events_list
                   \<lparr> el_calendarId = c, el_timeMin = se_timeMin input,
                     el_timeMax = se_timeMax input,
                     el_maxResults = se_maxResultsPerCalendar input,
                     el_q = Some (se_query input), el_singleEvents = se_singleEvents input,
                     el_orderBy = se_orderBy input, el_showDeleted = se_showDeleted input,
                     el_timeZone = se_timeZone input, el_pageToken = None,
                     el_syncToken = None,
                     el_privateExtendedProperty = se_privateExtendedProperty input,
                     el_sharedExtendedProperty = se_sharedExtendedProperty input \<rparr>);
         run = registerTool (searchEventsInput Z) (search_events (initialize C T)) args s
     in (thrown = None \<longrightarrow>
           length pages = length (se_calendarIds input) \<and>
           run =
             (Inr \<lparr> content =
                [\<lparr> type' = ''text'',
                   text' = JObj
                     [(''query'', JStr (se_query input)),
                      (''totalEvents'',
                         JNum (of_nat (sum_list (map
                           (\<lambda>page. length (case items page of None \<Rightarrow> [] | Some xs \<Rightarrow> xs))
                           pages)))),
                      (''calendars'',
                         JArr (map
                           (\<lambda>(c, page).
                              JObj [(''calendarId'', JStr c),
                                    (''events'',
                                       JArr (map mapEvent
                                         (case items page of None \<Rightarrow> [] | Some xs \<Rightarrow> xs))),
                                    (''nextPageToken'',
                                       case nextPageToken page of
                                         None \<Rightarrow> JNull
                                       | Some t \<Rightarrow> JStr t)])
                           (zip (se_calendarIds input) pages)))] \<rparr>] \<rparr>,
              \<lparr> world = w,
                calls = calls s @ map (\<lambda>c. (call c, None)) (se_calendarIds input) \<rparr>)) \<and>
        (\<forall>e. thrown = Some e \<longrightarrow>
           length pages < length (se_calendarIds input) \<and>
           run =
             (Inl (catch_clause e),
              \<lparr> world = w,
                calls = calls s @
                  map (\<lambda>c. (call c, None)) (take (length pages) (se_calendarIds input)) @
                  [(call (se_calendarIds input ! length pages), Some e)] \<rparr>) \<and>
           (\<exists>code msg. catch_clause e = McpError code msg) \<and>
           (\<forall>m. e = ErrorWithMessage m \<longrightarrow> catch_clause e = McpError InternalError m) \<and>
           (e = OtherThrown \<longrightarrow>
              catch_clause e = McpError InternalError ''Unexpected error executing tool'')))"
proof -
  let ?ids = "se_calendarIds input"
  have params: "(\<lambda>c. \<lparr> el_calendarId = c, el_timeMin = se_timeMin input,
                     el_timeMax = se_timeMax input,
                     el_maxResults = se_maxResultsPerCalendar input,
                     el_q = Some (se_query input), el_singleEvents = se_singleEvents input,
                     el_orderBy = se_orderBy input, el_showDeleted = se_showDeleted input,
                     el_timeZone = se_timeZone input, el_pageToken = None,
                     el_syncToken = None,
                     el_privateExtendedProperty = se_privateExtendedProperty input,
                     el_sharedExtendedProperty = se_sharedExtendedProperty input \<rparr>) =
      search_params input"
    by (rule ext) (simp add: search_params_def)
  have nonempty: "?ids \<noteq> []"
    using valid by (rule searchEventsInput_calendarIds)
  from listed have listed': "list_in_order C (map (search_params input) ?ids) (world s) =
      (pages, thrown, w)"
    by (simp only: params)
  note loop = search_loop_list_in_order [OF listed', of "[]"]
  have run: "registerTool (searchEventsInput Z) (search_events (initialize C T)) args s =
      (case search_loop C input ?ids [] s of
         (Inl e, s') \<Rightarrow> (Inl (catch_clause e), s')
       | (Inr results, s') \<Rightarrow>
           (Inr \<lparr> content =
              [\<lparr> type' = ''text'',
                 text' = JObj
                   [(''query'', JStr (se_query input)),
                    (''totalEvents'',
                       JNum (of_nat (sum_list (map (\<lambda>entry. length (sr_events entry)) results)))),
                    (''calendars'', JArr (map entry_json results))] \<rparr>] \<rparr>, s'))"
    using valid
    by (simp add: registerTool_valid [where input = input] search_events_run toJsonContent_def
          foldl_sum_list split: prod.splits sum.splits)
  have returned: "length pages = length ?ids \<and>
      registerTool (searchEventsInput Z) (search_events (initialize C T)) args s =
        (Inr \<lparr> content =
                [\<lparr> type' = ''text'',
                   text' = JObj
                     [(''query'', JStr (se_query input)),
                      (''totalEvents'',
                         JNum (of_nat (sum_list (map
                           (\<lambda>page. length (case items page of None \<Rightarrow> [] | Some xs \<Rightarrow> xs))
                           pages)))),
                      (''calendars'',
                         JArr (map
                           (\<lambda>(c, page).
                              JObj [(''calendarId'', JStr c),
                                    (''events'',
                                       JArr (map mapEvent
                                         (case items page of None \<Rightarrow> [] | Some xs \<Rightarrow> xs))),
                                    (''nextPageToken'',
                                       case nextPageToken page of
                                         None \<Rightarrow> JNull
                                       | Some t \<Rightarrow> JStr t)])
                           (zip ?ids pages)))] \<rparr>] \<rparr>,
              \<lparr> world = w,
                calls = calls s @
                  map (\<lambda>c. (calendar_events_list (search_params input c), None)) ?ids \<rparr>)"
    if none: "thrown = None"
  proof -
    from loop none have len: "length pages = length ?ids"
      by simp
    note total = sum_list_zip_snd [OF len [symmetric],
          of "\<lambda>page. length (case items page of None \<Rightarrow> [] | Some xs \<Rightarrow> xs)"]
    from loop none len show ?thesis
      by (simp add: run total entry_json_def or_null_def comp_def case_prod_unfold)
  qed
  have threw: "length pages < length ?ids \<and>
      registerTool (searchEventsInput Z) (search_events (initialize C T)) args s =
        (Inl (catch_clause e),
         \<lparr> world = w,
           calls = calls s @
             map (\<lambda>c. (calendar_events_list (search_params input c), None))
               (take (length pages) ?ids) @
             [(calendar_events_list (search_params input (?ids ! length pages)), Some e)] \<rparr>)"
    if some: "thrown = Some e" for e
    using loop some by (simp add: run)
  have caught: "\<exists>code msg. catch_clause e = McpError code msg" for e
    by (cases e) simp_all
  from nonempty returned threw caught show ?thesis
    unfolding Let_def by (auto simp: search_params_def)
qed

theorem search_events_sequential_all_or_nothing_witness:
  "searchEventsInput example_zod (Some (nullish (Some example_search_xyz_args) (JObj []))) =
     Inr example_search_xyz_input
   \<and> registerTool (searchEventsInput example_zod)
        (search_events (initialize example_search_calendar example_tasks))
        (Some example_search_xyz_args) example_state =
      (Inr \<lparr> content =
         [\<lparr> type' = ''text'',
            text' = JObj
              [(''query'', JStr ''standup''),
               (''totalEvents'', JNum 3),
               (''calendars'',
                  JArr [JObj [(''calendarId'', JStr ''x''),
                              (''events'', JArr [mapEvent [(''id'', JStr ''x1'')],
                                                 mapEvent [(''id'', JStr ''x2'')]]),
                              (''nextPageToken'', JStr ''more'')],
                        JObj [(''calendarId'', JStr ''y''),
                              (''events'', JArr []),
                              (''nextPageToken'', JNull)],
                        JObj [(''calendarId'', JStr ''z''),
                              (''events'', JArr [mapEvent [(''id'', JStr ''z1'')]]),
                              (''nextPageToken'', JNull)]])] \<rparr>] \<rparr>,
       \<lparr> world = 3,
         calls = map (\<lambda>c. (calendar_events_list
                    \<lparr> el_calendarId = c, el_timeMin = None, el_timeMax = None,
                      el_maxResults = None, el_q = Some ''standup'', el_singleEvents = None,
                      el_orderBy = None, el_showDeleted = None, el_timeZone = None,
                      el_pageToken = None, el_syncToken = None,
                      el_privateExtendedProperty = None,
                      el_sharedExtendedProperty = None \<rparr>, None))
                   [''x'', ''y'', ''z''] \<rparr>)
   \<and> searchEventsInput example_zod (Some (nullish (Some example_search_args) (JObj []))) =
       Inr example_search_input
   \<and> registerTool (searchEventsInput example_zod)
        (search_events (initialize example_calendar example_tasks))
        (Some example_search_args) example_state =
      (Inl (McpError InternalError ''Not Found''),
       \<lparr> world = 2,
         calls =
           [(calendar_events_list
               \<lparr> el_calendarId = ''a'', el_timeMin = None, el_timeMax = None,
                 el_maxResults = None, el_q = Some ''standup'', el_singleEvents = None,
                 el_orderBy = None, el_showDeleted = None, el_timeZone = None,
                 el_pageToken = None, el_syncToken = None,
                 el_privateExtendedProperty = None,
                 el_sharedExtendedProperty = None \<rparr>, None),
            (calendar_events_list
               \<lparr> el_calendarId = ''b'', el_timeMin = None, el_timeMax = None,
                 el_maxResults = None, el_q = Some ''standup'', el_singleEvents = None,
                 el_orderBy = None, el_showDeleted = None, el_timeZone = None,
                 el_pageToken = None, el_syncToken = None,
                 el_privateExtendedProperty = None,
                 el_sharedExtendedProperty = None \<rparr>,
             Some (ErrorWithMessage ''Not Found''))] \<rparr>)"
proof -
  have valid_xyz: "searchEventsInput example_zod
        (Some (nullish (Some example_search_xyz_args) (JObj []))) =
     Inr example_search_xyz_input"
    by (simp add: searchEventsInput_def schema_defs propertyFilterSchema_def
          example_search_xyz_args_def example_search_xyz_input_def example_search_input_def)
  have listed_xyz: "list_in_order example_search_calendar
        (map (\<lambda>c. \<lparr> el_calendarId = c, el_timeMin = se_timeMin example_search_xyz_input,
                     el_timeMax = se_timeMax example_search_xyz_input,
                     el_maxResults = se_maxResultsPerCalendar example_search_xyz_input,
                     el_q = Some (se_query example_search_xyz_input),
                     el_singleEvents = se_singleEvents example_search_xyz_input,
                     el_orderBy = se_orderBy example_search_xyz_input,
                     el_showDeleted = se_showDeleted example_search_xyz_input,
                     el_timeZone = se_timeZone example_search_xyz_input, el_pageToken = None,
                     el_syncToken = None,
                     el_privateExtendedProperty =
                       se_privateExtendedProperty example_search_xyz_input,
                     el_sharedExtendedProperty =
                       se_sharedExtendedProperty example_search_xyz_input \<rparr>)
           (se_calendarIds example_search_xyz_input))
        (world example_state) =
      ([\<lparr> items = Some [[(''id'', JStr ''x1'')], [(''id'', JStr ''x2'')]],
          nextPageToken = Some ''more'', nextSyncToken = None \<rparr>,
        \<lparr> items = None, nextPageToken = None, nextSyncToken = None \<rparr>,
        \<lparr> items = Some [[(''id'', JStr ''z1'')]], nextPageToken = None,
          nextSyncToken = None \<rparr>], None, 3)"
    by (simp add: example_search_xyz_input_def example_search_input_def
          example_search_calendar_def example_state_def)
  have valid_ab: "searchEventsInput example_zod
        (Some (nullish (Some example_search_args) (JObj []))) =
     Inr example_search_input"
    by (simp add: searchEventsInput_def schema_defs propertyFilterSchema_def
          example_search_args_def example_search_input_def)
  have listed_ab: "list_in_order example_calendar
        (map (\<lambda>c. \<lparr> el_calendarId = c, el_timeMin = se_timeMin example_search_input,
                     el_timeMax = se_timeMax example_search_input,
                     el_maxResults = se_maxResultsPerCalendar example_search_input,
                     el_q = Some (se_query example_search_input),
                     el_singleEvents = se_singleEvents example_search_input,
                     el_orderBy = se_orderBy example_search_input,
                     el_showDeleted = se_showDeleted example_search_input,
                     el_timeZone = se_timeZone example_search_input, el_pageToken = None,
                     el_syncToken = None,
                     el_privateExtendedProperty =
                       se_privateExtendedProperty example_search_input,
                     el_sharedExtendedProperty =
                       se_sharedExtendedProperty example_search_input \<rparr>)
           (se_calendarIds example_search_input))
        (world example_state) =
      ([\<lparr> items = Some [example_entity], nextPageToken = None, nextSyncToken = None \<rparr>],
       Some (ErrorWithMessage ''Not Found''), 2)"
    by (simp add: example_search_input_def example_calendar_def example_state_def)
  have xyz: "registerTool (searchEventsInput example_zod)
        (search_events (initialize example_search_calendar example_tasks))
        (Some example_search_xyz_args) example_state =
      (Inr \<lparr> content =
         [\<lparr> type' = ''text'',
            text' = JObj
              [(''query'', JStr ''standup''),
               (''totalEvents'', JNum 3),
               (''calendars'',
                  JArr [JObj [(''calendarId'', JStr ''x''),
                              (''events'', JArr [mapEvent [(''id'', JStr ''x1'')],
                                                 mapEvent [(''id'', JStr ''x2'')]]),
                              (''nextPageToken'', JStr ''more'')],
                        JObj [(''calendarId'', JStr ''y''),
                              (''events'', JArr []),
                              (''nextPageToken'', JNull)],
                        JObj [(''calendarId'', JStr ''z''),
                              (''events'', JArr [mapEvent [(''id'', JStr ''z1'')]]),
                              (''nextPageToken'', JNull)]])] \<rparr>] \<rparr>,
       \<lparr> world = 3,
         calls = map (\<lambda>c. (calendar_events_list
                    \<lparr> el_calendarId = c, el_timeMin = None, el_timeMax = None,
                      el_maxResults = None, el_q = Some ''standup'', el_singleEvents = None,
                      el_orderBy = None, el_showDeleted = None, el_timeZone = None,
                      el_pageToken = None, el_syncToken = None,
                      el_privateExtendedProperty = None,
                      el_sharedExtendedProperty = None \<rparr>, None))
                   [''x'', ''y'', ''z''] \<rparr>)"
    using search_events_sequential_all_or_nothing
            [OF valid_xyz listed_xyz, where T = example_tasks]
    by (simp add: Let_def example_search_xyz_input_def example_search_input_def
          example_state_def)
  have ab: "registerTool (searchEventsInput example_zod)
        (search_events (initialize example_calendar example_tasks))
        (Some example_search_args) example_state =
      (Inl (McpError InternalError ''Not Found''),
       \<lparr> world = 2,
         calls =
           [(calendar_events_list
               \<lparr> el_calendarId = ''a'', el_timeMin = None, el_timeMax = None,
                 el_maxResults = None, el_q = Some ''standup'', el_singleEvents = None,
                 el_orderBy = None, el_showDeleted = None, el_timeZone = None,
                 el_pageToken = None, el_syncToken = None,
                 el_privateExtendedProperty = None,
                 el_sharedExtendedProperty = None \<rparr>, None),
            (calendar_events_list
               \<lparr> el_calendarId = ''b'', el_timeMin = None, el_timeMax = None,
                 el_maxResults = None, el_q = Some ''standup'', el_singleEvents = None,
                 el_orderBy = None, el_showDeleted = None, el_timeZone = None,
                 el_pageToken = None, el_syncToken = None,
                 el_privateExtendedProperty = None,
                 el_sharedExtendedProperty = None \<rparr>,
             Some (ErrorWithMessage ''Not Found''))] \<rparr>)"
    using search_events_sequential_all_or_nothing
            [OF valid_ab listed_ab, where T = example_tasks]
    by (simp add: Let_def example_search_input_def example_state_def)
  from valid_xyz xyz valid_ab ab show ?thesis
    by blast
qed

section \<open>Reminders (C6)\<close>

text \<open>
  C6: on every create and update event path the reminders of the request body are
  \<^verbatim>\<open>mapReminders\<close> of the input's. When the input has overrides, each is sent with its
  minutes and with its method, or with \<^verbatim>\<open>popup\<close> when it has none. When \<^verbatim>\<open>useDefault\<close> is
  absent and the overrides are absent or empty, the request body has no reminders at all.
\<close>

theorem mapReminders_popup_and_omission:
  "(overrides r = Some os \<and> os \<noteq> [] \<longrightarrow>
      (\<exists>m gs. mapReminders (Some r) = Some m \<and> g_overrides m = Some gs \<and>
         length gs = length os \<and>
         (\<forall>i<length os.
            g_minutes (gs ! i) = minutes (os ! i) \<and>
            g_method (gs ! i) = (case method' (os ! i) of None \<Rightarrow> popup | Some x \<Rightarrow> x))))
   \<and> (useDefault r = None \<and> (overrides r = None \<or> overrides r = Some []) \<longrightarrow>
        mapReminders (Some r) = None)
   \<and> mapReminders None = None
   \<and> ev_reminders (create_event_requestBody ci) = mapReminders (reminders ci)
   \<and> ev_reminders (update_event_requestBody ui) = mapReminders (reminders ui)
   \<and> ev_reminders (update_event_instance_requestBody ii) = mapReminders (reminders ii)"
proof -
  have popup: "\<exists>m gs. mapReminders (Some r) = Some m \<and> g_overrides m = Some gs \<and>
         length gs = length os \<and>
         (\<forall>i<length os.
            g_minutes (gs ! i) = minutes (os ! i) \<and>
            g_method (gs ! i) = (case method' (os ! i) of None \<Rightarrow> popup | Some x \<Rightarrow> x))"
    if "overrides r = Some os" "os \<noteq> []"
    using that by (simp add: mapReminders_Some)
  have omitted: "mapReminders (Some r) = None"
    if "useDefault r = None" "overrides r = None \<or> overrides r = Some []"
    using that by (simp add: mapReminders_Some)
  have absent: "mapReminders None = None"
    by (simp add: mapReminders_def)
  from popup omitted absent show ?thesis
    unfolding ev_reminders_bodies by blast
qed

theorem mapReminders_popup_and_omission_witness:
  "mapReminders (Some \<lparr> useDefault = Some False,
                         overrides = Some [\<lparr> method' = None, minutes = 10 \<rparr>,
                                           \<lparr> method' = Some email_method, minutes = 30 \<rparr>] \<rparr>) =
     Some \<lparr> g_useDefault = Some False,
            g_overrides = Some [\<lparr> g_method = popup, g_minutes = 10 \<rparr>,
                                \<lparr> g_method = email_method, g_minutes = 30 \<rparr>] \<rparr>
   \<and> mapReminders (Some \<lparr> useDefault = None, overrides = Some [] \<rparr>) = None
   \<and> mapReminders (Some \<lparr> useDefault = None, overrides = None \<rparr>) = None"
  using mapReminders_popup_and_omission
          [of "\<lparr> useDefault = Some False,
                  overrides = Some [\<lparr> method' = None, minutes = 10 \<rparr>,
                                    \<lparr> method' = Some email_method, minutes = 30 \<rparr>] \<rparr>"
              "[\<lparr> method' = None, minutes = 10 \<rparr>,
                \<lparr> method' = Some email_method, minutes = 30 \<rparr>]"]
        mapReminders_popup_and_omission [of "\<lparr> useDefault = None, overrides = Some [] \<rparr>"]
        mapReminders_popup_and_omission [of "\<lparr> useDefault = None, overrides = None \<rparr>"]
  by (simp add: mapReminders_def Reminders_keys_def)

section \<open>Extended properties (C7)\<close>

text \<open>
  C7: on every create and update event path the extended properties of the request body are
  \<^verbatim>\<open>mapExtendedProperties\<close> of the input's. The value is present exactly when the private or
  the shared mapping has a key; when it is present, each of the two mappings is included
  exactly when it has a key, and is then the input's mapping.
\<close>

theorem mapExtendedProperties_only_with_keys:
  "(mapExtendedProperties (Some ep) \<noteq> None) = (has_keys (private' ep) \<or> has_keys (shared ep))
   \<and> (mapExtendedProperties (Some ep) = Some x \<longrightarrow>
        (g_private x \<noteq> None) = has_keys (private' ep) \<and>
        (g_shared x \<noteq> None) = has_keys (shared ep) \<and>
        (has_keys (private' ep) \<longrightarrow> g_private x = private' ep) \<and>
        (has_keys (shared ep) \<longrightarrow> g_shared x = shared ep))
   \<and> mapExtendedProperties None = None
   \<and> ev_extendedProperties (create_event_requestBody ci) =
        mapExtendedProperties (extendedProperties ci)
   \<and> ev_extendedProperties (update_event_requestBody ui) =
        mapExtendedProperties (extendedProperties ui)
   \<and> ev_extendedProperties (update_event_instance_requestBody ii) =
        mapExtendedProperties (extendedProperties ii)"
proof -
  have present: "(mapExtendedProperties (Some ep) \<noteq> None) =
      (has_keys (private' ep) \<or> has_keys (shared ep))"
    by (simp add: mapExtendedProperties_Some)
  have parts: "(g_private x \<noteq> None) = has_keys (private' ep) \<and>
        (g_shared x \<noteq> None) = has_keys (shared ep) \<and>
        (has_keys (private' ep) \<longrightarrow> g_private x = private' ep) \<and>
        (has_keys (shared ep) \<longrightarrow> g_shared x = shared ep)"
    if "mapExtendedProperties (Some ep) = Some x"
    using that by (auto simp: mapExtendedProperties_Some has_keys_def split: if_splits option.splits)
  have absent: "mapExtendedProperties None = None"
    by (simp add: mapExtendedProperties_def)
  from present parts absent show ?thesis
    unfolding ev_extendedProperties_bodies by blast
qed

theorem mapExtendedProperties_only_with_keys_witness:
  "mapExtendedProperties (Some \<lparr> private' = Some [(''k'', ''v'')], shared = Some [] \<rparr>) =
     Some \<lparr> g_private = Some [(''k'', ''v'')], g_shared = None \<rparr>
   \<and> mapExtendedProperties (Some \<lparr> private' = Some [], shared = None \<rparr>) = None"
  using mapExtendedProperties_only_with_keys
          [of "\<lparr> private' = Some [(''k'', ''v'')], shared = Some [] \<rparr>"
              "\<lparr> g_private = Some [(''k'', ''v'')], g_shared = None \<rparr>"]
        mapExtendedProperties_only_with_keys [of "\<lparr> private' = Some [], shared = None \<rparr>"]
  by (simp add: mapExtendedProperties_def has_keys_def)

section \<open>Completing a task (C8)\<close>

text \<open>
  C8: the one backend call of \<^verbatim>\<open>complete-task\<close> is a patch of the task named in the input
  whose body is exactly the status \<^verbatim>\<open>completed\<close> and the \<^verbatim>\<open>completed\<close> timestamp of the
  clock at the moment of the call. The one backend call of \<^verbatim>\<open>update-task\<close> is a patch whose
  body has the clock's timestamp as \<^verbatim>\<open>completed\<close> when the status \<^verbatim>\<open>completed\<close> is
  supplied, and no \<^verbatim>\<open>completed\<close> otherwise. The caller cannot choose the timestamp: the
  schemas of both tools read only their own properties of the raw arguments, so a
  \<^verbatim>\<open>completed\<close> property among them changes nothing.
\<close>

theorem completed_is_stamped_by_the_clock:
  "map fst (calls (snd (complete_task clock (initialize C T) ct s))) =
     map fst (calls s) @
     [tasks_tasks_patch
        \<lparr> tp_tasklist = ct_tasklistId ct, tp_task = ct_taskId ct,
          tp_requestBody =
            \<lparr> tk_title = None, tk_notes = None, tk_due = None,
              tk_status = Some task_completed, tk_completed = Some (clock (world s)) \<rparr> \<rparr>]
   \<and> map fst (calls (snd (update_task clock (initialize C T) ut s))) =
       map fst (calls s) @
       [tasks_tasks_patch
          \<lparr> tp_tasklist = ut_tasklistId ut, tp_task = ut_taskId ut,
            tp_requestBody = update_task_requestBody (clock (world s)) ut \<rparr>]
   \<and> tk_completed (update_task_requestBody now ut) =
       (if ut_status ut = Some task_completed then Some now else None)
   \<and> tk_status (update_task_requestBody now ut) = ut_status ut
   \<and> (get_prop ob ''tasklistId'' = get_prop ob' ''tasklistId'' \<and>
       get_prop ob ''taskId'' = get_prop ob' ''taskId'' \<longrightarrow>
         completeTaskInput Z (Some (JObj ob)) = completeTaskInput Z (Some (JObj ob')))
   \<and> (get_prop ob ''tasklistId'' = get_prop ob' ''tasklistId'' \<and>
       get_prop ob ''taskId'' = get_prop ob' ''taskId'' \<and>
       get_prop ob ''title'' = get_prop ob' ''title'' \<and>
       get_prop ob ''notes'' = get_prop ob' ''notes'' \<and>
       get_prop ob ''due'' = get_prop ob' ''due'' \<and>
       get_prop ob ''status'' = get_prop ob' ''status'' \<longrightarrow>
         updateTaskInput Z (Some (JObj ob)) = updateTaskInput Z (Some (JObj ob')))"
proof -
  have complete: "complete_task_params (clock (world s)) ct =
        \<lparr> tp_tasklist = ct_tasklistId ct, tp_task = ct_taskId ct,
          tp_requestBody =
            \<lparr> tk_title = None, tk_notes = None, tk_due = None,
              tk_status = Some task_completed, tk_completed = Some (clock (world s)) \<rparr> \<rparr>"
    by (simp add: complete_task_params_def empty_task_def)
  have update: "update_task_params (clock (world s)) ut =
          \<lparr> tp_tasklist = ut_tasklistId ut, tp_task = ut_taskId ut,
            tp_requestBody = update_task_requestBody (clock (world s)) ut \<rparr>"
    by (simp add: update_task_params_def)
  have stamp: "tk_completed (update_task_requestBody now ut) =
       (if ut_status ut = Some task_completed then Some now else None)"
    "tk_status (update_task_requestBody now ut) = ut_status ut"
    by (auto simp: update_task_requestBody_def empty_task_def Let_def)
  show ?thesis
    using logged_calls(4) [of clock C T ut s] logged_calls(5) [of clock C T ct s]
      completeTaskInput_reads [of ob ob' Z] updateTaskInput_reads [of ob ob' Z]
    unfolding complete update stamp
    by blast
qed

theorem completed_is_stamped_by_the_clock_witness:
  "map fst (calls (snd (complete_task example_clock
      (initialize example_calendar example_tasks)
      \<lparr> ct_tasklistId = ''@default'', ct_taskId = ''t1'' \<rparr> example_state))) =
     [tasks_tasks_patch
        \<lparr> tp_tasklist = ''@default'', tp_task = ''t1'',
          tp_requestBody =
            \<lparr> tk_title = None, tk_notes = None, tk_due = None,
              tk_status = Some task_completed,
              tk_completed = Some ''2024-01-10T17:00:00.000Z'' \<rparr> \<rparr>]
   \<and> updateTaskInput example_zod
       (Some (JObj [(''completed'', JStr ''1999-12-31T00:00:00.000Z''),
                    (''taskId'', JStr ''t1''), (''status'', JStr ''completed'')])) =
     updateTaskInput example_zod
       (Some (JObj [(''taskId'', JStr ''t1''), (''status'', JStr ''completed'')]))
   \<and> completeTaskInput example_zod
       (Some (JObj [(''completed'', JStr ''1999-12-31T00:00:00.000Z''),
                    (''taskId'', JStr ''t1'')])) =
     completeTaskInput example_zod (Some (JObj [(''taskId'', JStr ''t1'')]))"
  using completed_is_stamped_by_the_clock
          [where clock = example_clock and C = example_calendar and T = example_tasks
             and ct = "\<lparr> ct_tasklistId = ''@default'', ct_taskId = ''t1'' \<rparr>"
             and s = example_state and Z = example_zod
             and ob = "[(''completed'', JStr ''1999-12-31T00:00:00.000Z''),
                        (''taskId'', JStr ''t1'')]"
             and ob' = "[(''taskId'', JStr ''t1'')]"]
        completed_is_stamped_by_the_clock
          [where clock = example_clock and C = example_calendar and T = example_tasks
             and s = example_state and Z = example_zod
             and ob = "[(''completed'', JStr ''1999-12-31T00:00:00.000Z''),
                        (''taskId'', JStr ''t1''), (''status'', JStr ''completed'')]"
             and ob' = "[(''taskId'', JStr ''t1''), (''status'', JStr ''completed'')]"]
  by (simp add: get_prop_def example_state_def example_clock_def)

section \<open>The identifier of a created event (C9)\<close>

text \<open>
  C9: the request body of \<^verbatim>\<open>create-event\<close>, the body of the one backend call the handler
  makes, has the caller's \<^verbatim>\<open>eventId\<close> as its \<^verbatim>\<open>id\<close> if and only if one was supplied and is
  not the empty string. The empty string passes validation: arguments that validate still
  do when their \<^verbatim>\<open>eventId\<close> is set to the empty string, the validated input then has the
  empty string, and the request body has no \<^verbatim>\<open>id\<close>.
\<close>

theorem create_event_id_only_when_nonempty:
  "ev_id (ei_requestBody (create_event_params input)) =
     (if ce_eventId input = None \<or> ce_eventId input = Some [] then None else ce_eventId input)
   \<and> map fst (calls (snd (create_event (initialize C T) input s))) =
       map fst (calls s) @ [calendar_events_insert (create_event_params input)]
   \<and> (createEventInput Z (Some (JObj ob)) = Inr input \<longrightarrow>
        createEventInput Z (Some (JObj ((''eventId'', JStr []) # ob))) =
          Inr (input\<lparr> ce_eventId := Some [] \<rparr>) \<and>
        ev_id (ei_requestBody (create_event_params (input\<lparr> ce_eventId := Some [] \<rparr>))) = None)"
proof -
  have id: "ev_id (ei_requestBody (create_event_params i)) =
     (if ce_eventId i = None \<or> ce_eventId i = Some [] then None else ce_eventId i)" for i
    by (cases "ce_eventId i") (simp_all add: create_event_params_def body_defs)
  have accepted: "createEventInput Z (Some (JObj ((''eventId'', JStr []) # ob))) =
          Inr (input\<lparr> ce_eventId := Some [] \<rparr>)"
    if valid: "createEventInput Z (Some (JObj ob)) = Inr input"
  proof -
    let ?ob = "(''eventId'', JStr []) # ob"
    have common: "commonEventFields_shape Z ?ob = commonEventFields_shape Z ob"
      by (simp add: commonEventFields_shape_def field_def get_prop_def)
    have own: "field ?ob ''calendarId'' p1 = field ob ''calendarId'' p1"
      "field ?ob ''summary'' p2 = field ob ''summary'' p2"
      "field ?ob ''start'' p3 = field ob ''start'' p3"
      "field ?ob ''end'' p4 = field ob ''end'' p4"
      "field ?ob ''timeZone'' p5 = field ob ''timeZone'' p5"
      "field ?ob ''sendUpdates'' p6 = field ob ''sendUpdates'' p6"
      for p1 :: "string ZodType" and p2 :: "string ZodType" and p3 :: "string ZodType"
        and p4 :: "string ZodType" and p5 :: "string option ZodType"
        and p6 :: "SendUpdates option ZodType"
      by (simp_all add: field_def get_prop_def)
    have new: "field ?ob ''eventId'' (z_optional (z_string Z)) = Inr (Some [])"
      by (simp add: field_def get_prop_def z_optional_def z_string_def)
    from valid show ?thesis
      unfolding createEventInput_def z_object_def
      by (auto simp: common own new ap_Inr_iff CommonEventFields.extend_def
            CreateEventInput.fields_def)
  qed
  from id [of input] id [of "input\<lparr> ce_eventId := Some [] \<rparr>"] accepted
    logged_calls(1) [of C T input s]
  show ?thesis
    by simp
qed

theorem create_event_id_only_when_nonempty_witness:
  "createEventInput example_zod (Some example_create_args) = Inr example_create_input
   \<and> createEventInput example_zod
       (Some (JObj ((''eventId'', JStr []) # properties example_create_args))) =
     Inr (example_create_input\<lparr> ce_eventId := Some [] \<rparr>)
   \<and> ev_id (ei_requestBody (create_event_params
        (example_create_input\<lparr> ce_eventId := Some [] \<rparr>))) = None
   \<and> ev_id (ei_requestBody (create_event_params
        (example_create_input\<lparr> ce_eventId := Some ''standup20240110'' \<rparr>))) =
     Some ''standup20240110''"
proof -
  have valid: "createEventInput example_zod (Some (JObj (properties example_create_args))) =
      Inr example_create_input"
    by (simp add: createEventInput_def schema_defs event_schema_defs example_create_args_def
          example_create_input_def)
  have args: "JObj (properties example_create_args) = example_create_args"
    by (simp add: example_create_args_def)
  from create_event_id_only_when_nonempty
         [where input = example_create_input and Z = example_zod
            and ob = "properties example_create_args" and C = example_calendar
            and T = example_tasks and s = example_state]
       create_event_id_only_when_nonempty
         [where input = "example_create_input\<lparr> ce_eventId := Some ''standup20240110'' \<rparr>"
            and Z = example_zod and ob = "[]" and C = example_calendar
            and T = example_tasks and s = example_state]
       valid
  show ?thesis
    by (simp add: args)
qed

section \<open>Listing task lists (C10)\<close>




end
